theory Spec2Isabelle
  imports Main "HOL-Library.Word" "HOL-Library.Code_Target_Numeral"
begin

section \<open>Bytes, pointers and byte cursors\<close>

text \<open>
  The file \<^verbatim>\<open>ecc.c\<close> works on \<^verbatim>\<open>struct aws_byte_cursor\<close> values: a length and a
  pointer into memory the cursor does not own. Memory is modelled by blocks, as a C object
  model does: the two static OID arrays of the file are blocks of their own, every other
  buffer (the DER input the tokens point into) is a numbered block of the memory. A pointer
  is the null pointer or a block with a byte offset.
\<close>

type_synonym u8 = "8 word"

datatype block = Static_p256_oid | Static_p384_oid | Buffer nat

datatype pointer = Null | Ptr block nat

record aws_byte_cursor =
  len :: nat
  ptr :: pointer

text \<open>The memory outside the statics: buffer \<open>n\<close> holds the bytes \<open>m ! n\<close>.\<close>

type_synonym memory = "u8 list list"

text \<open>\<^verbatim>\<open>static uint8_t s_p256_oid[]\<close> and \<^verbatim>\<open>static uint8_t s_p384_oid[]\<close> (lines 26 to 44).\<close>

definition s_p256_oid :: "u8 list" where
  "s_p256_oid = [0x2A, 0x86, 0x48, 0xCE, 0x3D, 0x03, 0x01, 0x07]"

definition s_p384_oid :: "u8 list" where
  "s_p384_oid = [0x2B, 0x81, 0x04, 0x00, 0x22]"

text \<open>
  \<^verbatim>\<open>STATIC_INIT_BYTE_CURSOR(a, name)\<close> (lines 20 to 24, 36 and 45): a static cursor over the
  whole array, \<^verbatim>\<open>.ptr = (a), .len = sizeof(a)\<close>.
\<close>

definition s_ecc_p256_oid :: aws_byte_cursor where
  "s_ecc_p256_oid = \<lparr>len = length s_p256_oid, ptr = Ptr Static_p256_oid 0\<rparr>"

definition s_ecc_p384_oid :: aws_byte_cursor where
  "s_ecc_p384_oid = \<lparr>len = length s_p384_oid, ptr = Ptr Static_p384_oid 0\<rparr>"

fun block_bytes :: "memory \<Rightarrow> block \<Rightarrow> u8 list" where
  "block_bytes m Static_p256_oid = s_p256_oid"
| "block_bytes m Static_p384_oid = s_p384_oid"
| "block_bytes m (Buffer n) = (if n < length m then m ! n else [])"

text \<open>
  The bytes a cursor views: \<open>len\<close> bytes from its pointer on. A cursor that reaches past
  the end of its block is not a valid cursor in C; here it views the bytes that are there.
\<close>

definition cursor_bytes :: "memory \<Rightarrow> aws_byte_cursor \<Rightarrow> u8 list" where
  "cursor_bytes m c =
     (case ptr c of
        Null \<Rightarrow> []
      | Ptr b off \<Rightarrow> take (len c) (drop off (block_bytes m b)))"

text \<open>\<^verbatim>\<open>p + n\<close> on a byte pointer. C gives no meaning to arithmetic on the null pointer.\<close>

fun ptr_add :: "pointer \<Rightarrow> nat \<Rightarrow> pointer" where
  "ptr_add Null n = Null"
| "ptr_add (Ptr b off) n = Ptr b (off + n)"

text \<open>\<^verbatim>\<open>AWS_ZERO_STRUCT\<close> on a cursor: every field zero, the pointer null.\<close>

definition zero_cursor :: aws_byte_cursor where
  "zero_cursor = \<lparr>len = 0, ptr = Null\<rparr>"

text \<open>
  \<^verbatim>\<open>aws_byte_cursor_eq\<close> of aws-c-common (a library this repository links, not part of it):
  the lengths are equal and, unless both are empty, \<^verbatim>\<open>memcmp\<close> finds the bytes equal.
\<close>

definition aws_byte_cursor_eq :: "memory \<Rightarrow> aws_byte_cursor \<Rightarrow> aws_byte_cursor \<Rightarrow> bool" where
  "aws_byte_cursor_eq m a b =
     (if len a \<noteq> len b then False
      else if len a = 0 then True
      else cursor_bytes m a = cursor_bytes m b)"

text \<open>
  \<^verbatim>\<open>aws_byte_cursor_advance\<close> of aws-c-common: splits off the first \<open>n\<close> bytes. It returns
  the split-off cursor and moves the given cursor forward; when \<open>n\<close> is more than the
  cursor holds (or a length is above half of \<^verbatim>\<open>SIZE_MAX\<close>) it returns a zeroed cursor and
  leaves the given one alone. The result is the pair (returned cursor, cursor afterwards).
\<close>

definition SIZE_MAX :: nat where
  "SIZE_MAX = 2 ^ 64 - 1"

definition aws_byte_cursor_advance :: "aws_byte_cursor \<Rightarrow> nat \<Rightarrow> aws_byte_cursor \<times> aws_byte_cursor" where
  "aws_byte_cursor_advance cursor n =
     (if len cursor > SIZE_MAX div 2 \<or> n > SIZE_MAX div 2 \<or> n > len cursor
      then (zero_cursor, cursor)
      else (\<lparr>len = n, ptr = ptr cursor\<rparr>,
            \<lparr>len = len cursor - n, ptr = ptr_add (ptr cursor) n\<rparr>))"

section \<open>Curve registry\<close>

text \<open>
  Modelled from the spec: \<^verbatim>\<open>enum aws_ecc_curve_name\<close> is declared in
  \<^verbatim>\<open>aws/cal/ecc.h\<close>, which is not among the sources. The spec gives a closed enumeration
  \<open>{P256, P384}\<close>, ordinal-stable and used as an array index; a C enumeration numbers
  its enumerators from 0. A value of the enumeration type is an \<open>int\<close>, so that values
  outside the enumeration can be passed, as C allows.
\<close>

definition AWS_CAL_ECDSA_P256 :: int where
  "AWS_CAL_ECDSA_P256 = 0"

definition AWS_CAL_ECDSA_P384 :: int where
  "AWS_CAL_ECDSA_P384 = 1"

text \<open>
  The error codes raised in this file. \<^verbatim>\<open>aws_raise_error(e)\<close> records \<open>e\<close> as the
  thread's last error and returns \<^verbatim>\<open>AWS_OP_ERR\<close>; the status below carries the code.
\<close>

datatype aws_error =
    AWS_ERROR_CAL_UNKNOWN_OBJECT_IDENTIFIER
  | AWS_ERROR_CAL_UNSUPPORTED_ALGORITHM
  | AWS_ERROR_CAL_MISSING_REQUIRED_KEY_COMPONENT

datatype op_status = AWS_OP_SUCCESS | AWS_OP_ERR aws_error

definition aws_raise_error :: "aws_error \<Rightarrow> op_status" where
  "aws_raise_error e = AWS_OP_ERR e"

text \<open>
  \<^verbatim>\<open>s_ecc_curve_oids\<close> (lines 47 to 50): an array of pointers to the static cursors, filled
  by designated initialisers. Its length is one more than the largest index named; an
  entry no initialiser names is a null pointer (\<open>None\<close>).
\<close>

definition s_ecc_curve_oids :: "aws_byte_cursor option list" where
  "s_ecc_curve_oids =
     (replicate (nat (max AWS_CAL_ECDSA_P256 AWS_CAL_ECDSA_P384) + 1) None)
       [nat AWS_CAL_ECDSA_P256 := Some s_ecc_p256_oid,
        nat AWS_CAL_ECDSA_P384 := Some s_ecc_p384_oid]"

text \<open>
  \<^verbatim>\<open>aws_ecc_curve_name_from_oid\<close> (lines 52 to 64). The out parameter
  \<^verbatim>\<open>*curve_name\<close> is passed in and returned: it is written on success only.
\<close>

definition aws_ecc_curve_name_from_oid :: "memory \<Rightarrow> aws_byte_cursor \<Rightarrow> int \<Rightarrow> op_status \<times> int" where
  "aws_ecc_curve_name_from_oid m oid curve_name =
     (if aws_byte_cursor_eq m oid s_ecc_p256_oid then (AWS_OP_SUCCESS, AWS_CAL_ECDSA_P256)
      else if aws_byte_cursor_eq m oid s_ecc_p384_oid then (AWS_OP_SUCCESS, AWS_CAL_ECDSA_P384)
      else (aws_raise_error AWS_ERROR_CAL_UNKNOWN_OBJECT_IDENTIFIER, curve_name))"

text \<open>
  Reading \<^verbatim>\<open>*table[i]\<close>: \<open>None\<close> is the undefined behaviour of C, an index outside the
  array or a null entry dereferenced.
\<close>

definition read_table :: "'a option list \<Rightarrow> int \<Rightarrow> 'a option" where
  "read_table table i = (if 0 \<le> i \<and> i < int (length table) then table ! nat i else None)"

text \<open>
  \<^verbatim>\<open>aws_ecc_oid_from_curve_name\<close> (lines 66 to 72). The out parameter \<^verbatim>\<open>*oid\<close> is passed
  in and returned. The result is \<open>None\<close> when the call has undefined behaviour.
\<close>

definition aws_ecc_oid_from_curve_name :: "int \<Rightarrow> aws_byte_cursor \<Rightarrow> (op_status \<times> aws_byte_cursor) option" where
  "aws_ecc_oid_from_curve_name curve_name oid =
     (if curve_name < AWS_CAL_ECDSA_P256 \<or> curve_name > AWS_CAL_ECDSA_P384
      then Some (aws_raise_error AWS_ERROR_CAL_UNSUPPORTED_ALGORITHM, oid)
      else (case read_table s_ecc_curve_oids curve_name of
              None \<Rightarrow> None
            | Some c \<Rightarrow> Some (AWS_OP_SUCCESS, c)))"

text \<open>\<^verbatim>\<open>aws_ecc_key_coordinate_byte_size_from_curve_name\<close> (lines 121 to 130).\<close>

definition aws_ecc_key_coordinate_byte_size_from_curve_name :: "int \<Rightarrow> nat" where
  "aws_ecc_key_coordinate_byte_size_from_curve_name curve_name =
     (if curve_name = AWS_CAL_ECDSA_P256 then 32
      else if curve_name = AWS_CAL_ECDSA_P384 then 48
      else 0)"

section \<open>The DER token stream\<close>

text \<open>
  Modelled from the spec: the DER tokenizer (\<^verbatim>\<open>aws/cal/private/der.h\<close> and its
  implementation) is not among the sources. The spec describes it as a lazy, finite,
  single-pass sequence of typed tokens, each a type and its raw bytes, read through
  \<^verbatim>\<open>next\<close>, \<^verbatim>\<open>type\<close>, \<^verbatim>\<open>blob\<close> and \<^verbatim>\<open>string\<close>. The decoder is the list of the
  tokens it has still to yield; \<^verbatim>\<open>aws_der_decoder_next\<close> moves to the head of that list
  and returns false on the empty list. \<open>AWS_DER_OTHER\<close> stands for every type of the
  enumeration that \<^verbatim>\<open>ecc.c\<close> does not name.
\<close>

datatype aws_der_type =
    AWS_DER_BIT_STRING
  | AWS_DER_OCTET_STRING
  | AWS_DER_OBJECT_IDENTIFIER
  | AWS_DER_OTHER

record der_tlv =
  tlv_type :: aws_der_type
  tlv_bytes :: aws_byte_cursor

type_synonym aws_der_decoder = "der_tlv list"

text \<open>
  Modelled from the spec: \<^verbatim>\<open>aws_der_decoder_tlv_type(decoder)\<close> is the type of the
  current token.
\<close>

definition aws_der_decoder_tlv_type :: "der_tlv \<Rightarrow> aws_der_type" where
  "aws_der_decoder_tlv_type t = tlv_type t"

text \<open>
  Modelled from the spec: \<^verbatim>\<open>aws_der_decoder_tlv_blob(decoder, &out)\<close> stores the raw bytes
  of the current token in \<open>out\<close>. The second argument is the value \<open>out\<close> held before.
\<close>

definition aws_der_decoder_tlv_blob :: "der_tlv \<Rightarrow> aws_byte_cursor \<Rightarrow> aws_byte_cursor" where
  "aws_der_decoder_tlv_blob t out = tlv_bytes t"

text \<open>
  Modelled from the spec: \<^verbatim>\<open>aws_der_decoder_tlv_string(decoder, &out)\<close> stores the raw
  bytes of the current token in \<open>out\<close> when the token is a BIT STRING or an OCTET STRING
  (\<open>capture its raw bytes into the current slot\<close>), and leaves \<open>out\<close> alone otherwise.
\<close>

definition aws_der_decoder_tlv_string :: "der_tlv \<Rightarrow> aws_byte_cursor \<Rightarrow> aws_byte_cursor" where
  "aws_der_decoder_tlv_string t out =
     (if tlv_type t = AWS_DER_BIT_STRING \<or> tlv_type t = AWS_DER_OCTET_STRING
      then tlv_bytes t else out)"

section \<open>Key-material decoder\<close>

text \<open>
  The variables of \<^verbatim>\<open>aws_der_decoder_load_ecc_key_pair\<close> (lines 132 to 221): the four
  objects its out parameters point to (taken to be four distinct objects), and its
  locals. \<^verbatim>\<open>current_part\<close>, \<^verbatim>\<open>private_key\<close> and \<^verbatim>\<open>public_key\<close> point to one of the two
  local cursors.
\<close>

datatype part_ptr = Part_1 | Part_2

record decode_vars =
  out_public_x_coor :: aws_byte_cursor
  out_public_y_coor :: aws_byte_cursor
  out_private_d :: aws_byte_cursor
  out_curve_name :: int
  pair_part_1 :: aws_byte_cursor
  pair_part_2 :: aws_byte_cursor
  curve_name_recognized :: bool
  current_part :: part_ptr

fun deref_part :: "part_ptr \<Rightarrow> decode_vars \<Rightarrow> aws_byte_cursor" where
  "deref_part Part_1 s = pair_part_1 s"
| "deref_part Part_2 s = pair_part_2 s"

fun assign_part :: "part_ptr \<Rightarrow> aws_byte_cursor \<Rightarrow> decode_vars \<Rightarrow> decode_vars" where
  "assign_part Part_1 c s = s\<lparr>pair_part_1 := c\<rparr>"
| "assign_part Part_2 c s = s\<lparr>pair_part_2 := c\<rparr>"

text \<open>The body of the \<^verbatim>\<open>while\<close> loop (lines 156 to 174), on the token \<open>t\<close>.\<close>

definition loop_body :: "memory \<Rightarrow> der_tlv \<Rightarrow> decode_vars \<Rightarrow> decode_vars" where
  "loop_body m t s =
     (let ty = aws_der_decoder_tlv_type t in
      if ty = AWS_DER_OBJECT_IDENTIFIER then
        (let oid = aws_der_decoder_tlv_blob t zero_cursor;
             (rc, cn) = aws_ecc_curve_name_from_oid m oid (out_curve_name s);
             s1 = s\<lparr>out_curve_name := cn\<rparr>
         in if rc = AWS_OP_SUCCESS then s1\<lparr>curve_name_recognized := True\<rparr> else s1)
      else if ty = AWS_DER_BIT_STRING \<or> ty = AWS_DER_OCTET_STRING then
        (let p = current_part s;
             s1 = assign_part p (aws_der_decoder_tlv_string t (deref_part p s)) s
         in s1\<lparr>current_part := Part_2\<rparr>)
      else s)"

text \<open>\<^verbatim>\<open>while (aws_der_decoder_next(decoder)) { ... }\<close> (lines 155 to 175).\<close>

fun token_loop :: "memory \<Rightarrow> aws_der_decoder \<Rightarrow> decode_vars \<Rightarrow> decode_vars" where
  "token_loop m [] s = s"
| "token_loop m (t # decoder) s = token_loop m decoder (loop_body m t s)"

text \<open>
  Lines 188 to 194 for \<^verbatim>\<open>pair_part_1\<close> and lines 196 to 202 for \<^verbatim>\<open>pair_part_2\<close>: the
  same test on each part, which sets \<^verbatim>\<open>private_key\<close> or \<^verbatim>\<open>public_key\<close> (the pair
  passed in and returned) to the address \<open>p\<close> of the part.
\<close>

definition classify_part ::
  "nat \<Rightarrow> nat \<Rightarrow> part_ptr \<Rightarrow> aws_byte_cursor \<Rightarrow> part_ptr option \<times> part_ptr option
     \<Rightarrow> part_ptr option \<times> part_ptr option" where
  "classify_part key_coordinate_size public_key_blob_size p part keys =
     (if ptr part \<noteq> Null \<and> len part \<noteq> 0 then
        (if len part = key_coordinate_size then (Some p, snd keys)
         else if len part = public_key_blob_size then (fst keys, Some p)
         else keys)
      else keys)"

text \<open>
  Lines 183 to 202: \<^verbatim>\<open>private_key\<close> and \<^verbatim>\<open>public_key\<close> start as null pointers; the
  first part is classified, then the second.
\<close>

definition classify_parts :: "nat \<Rightarrow> decode_vars \<Rightarrow> part_ptr option \<times> part_ptr option" where
  "classify_parts key_coordinate_size s =
     (let public_key_blob_size = key_coordinate_size * 2 + 1 in
      classify_part key_coordinate_size public_key_blob_size Part_2 (pair_part_2 s)
        (classify_part key_coordinate_size public_key_blob_size Part_1 (pair_part_1 s)
           (None, None)))"

text \<open>Lines 212 to 218, with \<^verbatim>\<open>public_key\<close> pointing to the part \<open>p\<close>.\<close>

definition export_public_key :: "nat \<Rightarrow> part_ptr \<Rightarrow> decode_vars \<Rightarrow> decode_vars" where
  "export_public_key key_coordinate_size p s =
     (let s1 = assign_part p (snd (aws_byte_cursor_advance (deref_part p s) 1)) s;
          s2 = s1\<lparr>out_public_x_coor := deref_part p s1\<rparr>;
          s3 = s2\<lparr>out_public_x_coor := (out_public_x_coor s2)\<lparr>len := key_coordinate_size\<rparr>\<rparr>;
          s4 = s3\<lparr>out_public_y_coor :=
                 (out_public_y_coor s3)\<lparr>ptr := ptr_add (ptr (deref_part p s3)) key_coordinate_size\<rparr>\<rparr>
      in s4\<lparr>out_public_y_coor := (out_public_y_coor s4)\<lparr>len := key_coordinate_size\<rparr>\<rparr>)"

text \<open>Lines 181 to 220: what the function does once a curve name has been recognised.\<close>

definition export_keys :: "decode_vars \<Rightarrow> op_status \<times> decode_vars" where
  "export_keys s =
     (let key_coordinate_size =
            aws_ecc_key_coordinate_byte_size_from_curve_name (out_curve_name s);
          (private_key, public_key) = classify_parts key_coordinate_size s
      in if private_key = None \<and> public_key = None
         then (aws_raise_error AWS_ERROR_CAL_MISSING_REQUIRED_KEY_COMPONENT, s)
         else
           (let s1 = (case private_key of
                        None \<Rightarrow> s
                      | Some p \<Rightarrow> s\<lparr>out_private_d := deref_part p s\<rparr>);
                s2 = (case public_key of
                        None \<Rightarrow> s1
                      | Some p \<Rightarrow> export_public_key key_coordinate_size p s1)
            in (AWS_OP_SUCCESS, s2)))"

text \<open>
  Lines 139 to 153: the three output cursors and the two parts are zeroed, no curve
  name is recognised yet, and \<^verbatim>\<open>current_part\<close> points to the first part. The arguments
  are what the four output objects hold when the function is called.
\<close>

definition initial_vars ::
  "aws_byte_cursor \<Rightarrow> aws_byte_cursor \<Rightarrow> aws_byte_cursor \<Rightarrow> int \<Rightarrow> decode_vars" where
  "initial_vars x0 y0 d0 cn0 =
     (let s = \<lparr>out_public_x_coor = x0, out_public_y_coor = y0, out_private_d = d0,
               out_curve_name = cn0, pair_part_1 = zero_cursor, pair_part_2 = zero_cursor,
               curve_name_recognized = False, current_part = Part_1\<rparr>
      in s\<lparr>out_public_x_coor := zero_cursor, out_public_y_coor := zero_cursor,
           out_private_d := zero_cursor\<rparr>)"

text \<open>
  \<^verbatim>\<open>aws_der_decoder_load_ecc_key_pair\<close> (lines 132 to 221): the status returned and the
  variables at the return, of which the caller sees the four \<open>out_\<close> fields.
\<close>

definition aws_der_decoder_load_ecc_key_pair ::
  "memory \<Rightarrow> aws_der_decoder \<Rightarrow> aws_byte_cursor \<Rightarrow> aws_byte_cursor \<Rightarrow> aws_byte_cursor \<Rightarrow> int
     \<Rightarrow> op_status \<times> decode_vars" where
  "aws_der_decoder_load_ecc_key_pair m decoder x0 y0 d0 cn0 =
     (let s = token_loop m decoder (initial_vars x0 y0 d0 cn0) in
      if \<not> curve_name_recognized s
      then (aws_raise_error AWS_ERROR_CAL_UNKNOWN_OBJECT_IDENTIFIER, s)
      else export_keys s)"

section \<open>Key-pair handle and backend vtable\<close>

text \<open>
  Modelled from the spec: \<^verbatim>\<open>struct aws_ecc_key_pair\<close> and
  \<^verbatim>\<open>struct aws_ecc_key_pair_vtable\<close> are declared in \<^verbatim>\<open>aws/cal/ecc.h\<close>, which is not
  among the sources. The spec gives a key pair a curve name, the byte buffers
  \<open>pub_x\<close>, \<open>pub_y\<close> and \<open>priv_d\<close>, a reference count, backend-private state, and a
  bound implementation of the five backend operations; \<^verbatim>\<open>ecc.c\<close> reads the operations
  as function pointers \<^verbatim>\<open>key_pair->vtable->destroy\<close> and so on, each of which may be null
  (\<open>None\<close>).

  A backend operation receives a pointer to the key pair. It is a function of the key
  pair's fields (the vtable pointer apart, which a type of HOL cannot hold recursively):
  the operations called through a pointer to a non-const key pair return the fields as
  they leave them, the operations on a const key pair only read them. Messages and
  signatures are byte strings. The reference count is a \<^verbatim>\<open>size_t\<close> in an atomic
  variable, 64 bits wide here.
\<close>

record 'i key_pair_fields =
  ref_count :: "64 word"
  curve_name :: int
  pub_x :: "u8 list"
  pub_y :: "u8 list"
  priv_d :: "u8 list"
  impl :: 'i

record 'i aws_ecc_key_pair_vtable =
  destroy :: "('i key_pair_fields \<Rightarrow> 'i key_pair_fields) option"
  derive_pub_key :: "('i key_pair_fields \<Rightarrow> int \<times> 'i key_pair_fields) option"
  sign_message :: "('i key_pair_fields \<Rightarrow> u8 list \<Rightarrow> u8 list \<Rightarrow> int \<times> u8 list) option"
  verify_signature :: "('i key_pair_fields \<Rightarrow> u8 list \<Rightarrow> u8 list \<Rightarrow> int) option"
  signature_length :: "('i key_pair_fields \<Rightarrow> nat) option"

record 'i aws_ecc_key_pair =
  vtable :: "'i aws_ecc_key_pair_vtable"
  members :: "'i key_pair_fields"

text \<open>
  A call either returns or ends the process: \<^verbatim>\<open>AWS_FATAL_ASSERT(c)\<close> aborts when \<open>c\<close>
  is false.
\<close>

datatype 'a outcome = Aborted | Returned 'a

text \<open>
  \<^verbatim>\<open>s_aws_ecc_key_pair_destroy\<close> (lines 74 to 79). The argument is a pointer that may be
  null (\<open>None\<close>); the result is the object behind it after the call.
\<close>

definition s_aws_ecc_key_pair_destroy ::
  "'i aws_ecc_key_pair option \<Rightarrow> 'i aws_ecc_key_pair option outcome" where
  "s_aws_ecc_key_pair_destroy key_pair =
     (case key_pair of
        None \<Rightarrow> Returned None
      | Some k \<Rightarrow>
          (case destroy (vtable k) of
             None \<Rightarrow> Aborted
           | Some f \<Rightarrow> Returned (Some (k\<lparr>members := f (members k)\<rparr>))))"

text \<open>\<^verbatim>\<open>aws_ecc_key_pair_derive_public_key\<close> (lines 81 to 84).\<close>

definition aws_ecc_key_pair_derive_public_key ::
  "'i aws_ecc_key_pair \<Rightarrow> (int \<times> 'i aws_ecc_key_pair) outcome" where
  "aws_ecc_key_pair_derive_public_key key_pair =
     (case derive_pub_key (vtable key_pair) of
        None \<Rightarrow> Aborted
      | Some f \<Rightarrow>
          Returned (fst (f (members key_pair)), key_pair\<lparr>members := snd (f (members key_pair))\<rparr>))"

text \<open>
  \<^verbatim>\<open>aws_ecc_key_pair_sign_message\<close> (lines 86 to 92): the status and the signature
  buffer after the call.
\<close>

definition aws_ecc_key_pair_sign_message ::
  "'i aws_ecc_key_pair \<Rightarrow> u8 list \<Rightarrow> u8 list \<Rightarrow> (int \<times> u8 list) outcome" where
  "aws_ecc_key_pair_sign_message key_pair message signature =
     (case sign_message (vtable key_pair) of
        None \<Rightarrow> Aborted
      | Some f \<Rightarrow> Returned (f (members key_pair) message signature))"

text \<open>\<^verbatim>\<open>aws_ecc_key_pair_verify_signature\<close> (lines 94 to 101).\<close>

definition aws_ecc_key_pair_verify_signature ::
  "'i aws_ecc_key_pair \<Rightarrow> u8 list \<Rightarrow> u8 list \<Rightarrow> int outcome" where
  "aws_ecc_key_pair_verify_signature key_pair message signature =
     (case verify_signature (vtable key_pair) of
        None \<Rightarrow> Aborted
      | Some f \<Rightarrow> Returned (f (members key_pair) message signature))"

text \<open>\<^verbatim>\<open>aws_ecc_key_pair_signature_length\<close> (lines 103 to 107).\<close>

definition aws_ecc_key_pair_signature_length :: "'i aws_ecc_key_pair \<Rightarrow> nat outcome" where
  "aws_ecc_key_pair_signature_length key_pair =
     (case signature_length (vtable key_pair) of
        None \<Rightarrow> Aborted
      | Some f \<Rightarrow> Returned (f (members key_pair)))"

text \<open>
  \<^verbatim>\<open>aws_ecc_key_pair_acquire\<close> (lines 223 to 225): \<^verbatim>\<open>aws_atomic_fetch_add\<close> adds 1 to
  the count, wrapping around as unsigned arithmetic does.
\<close>

definition aws_ecc_key_pair_acquire :: "'i aws_ecc_key_pair \<Rightarrow> 'i aws_ecc_key_pair" where
  "aws_ecc_key_pair_acquire key_pair =
     key_pair\<lparr>members := (members key_pair)\<lparr>ref_count := ref_count (members key_pair) + 1\<rparr>\<rparr>"

text \<open>
  \<^verbatim>\<open>aws_ecc_key_pair_release\<close> (lines 227 to 233): \<^verbatim>\<open>aws_atomic_fetch_sub\<close> subtracts 1
  from the count and returns the value the count had before.
\<close>

definition aws_ecc_key_pair_release ::
  "'i aws_ecc_key_pair \<Rightarrow> 'i aws_ecc_key_pair option outcome" where
  "aws_ecc_key_pair_release key_pair =
     (let old_value = ref_count (members key_pair);
          k = key_pair\<lparr>members := (members key_pair)\<lparr>ref_count := old_value - 1\<rparr>\<rparr>
      in if old_value = 1 then s_aws_ecc_key_pair_destroy (Some k) else Returned (Some k))"

text \<open>
  A client of one handle: the calls to \<^verbatim>\<open>acquire\<close> and \<^verbatim>\<open>release\<close> that its owners
  make, in the order the atomic operations take effect. \<open>handle_calls\<close> runs them;
  \<open>paired n cs\<close> says that the calls \<open>cs\<close>, made while \<open>n\<close> acquired references
  are outstanding, release only references acquired before and leave none outstanding.
\<close>

datatype handle_call = Acquire | Release

fun handle_calls ::
  "handle_call list \<Rightarrow> 'i aws_ecc_key_pair \<Rightarrow> 'i aws_ecc_key_pair option outcome" where
  "handle_calls [] k = Returned (Some k)"
| "handle_calls (Acquire # cs) k = handle_calls cs (aws_ecc_key_pair_acquire k)"
| "handle_calls (Release # cs) k =
     (case aws_ecc_key_pair_release k of
        Returned (Some k') \<Rightarrow> handle_calls cs k'
      | r \<Rightarrow> r)"

fun paired :: "nat \<Rightarrow> handle_call list \<Rightarrow> bool" where
  "paired n [] = (n = 0)"
| "paired n (Acquire # cs) = paired (Suc n) cs"
| "paired n (Release # cs) = (0 < n \<and> paired (n - 1) cs)"

section \<open>Vocabulary of the properties\<close>

text \<open>
  \<open>cursor_is m c bs\<close>: the cursor \<open>c\<close> views exactly the bytes \<open>bs\<close>.
  \<open>oid_curve\<close> names the curve whose OID bytes a cursor views, if any.
\<close>

definition cursor_is :: "memory \<Rightarrow> aws_byte_cursor \<Rightarrow> u8 list \<Rightarrow> bool" where
  "cursor_is m c bs = (len c = length bs \<and> cursor_bytes m c = bs)"

definition oid_curve :: "memory \<Rightarrow> aws_byte_cursor \<Rightarrow> int option" where
  "oid_curve m c =
     (if cursor_is m c s_p256_oid then Some AWS_CAL_ECDSA_P256
      else if cursor_is m c s_p384_oid then Some AWS_CAL_ECDSA_P384
      else None)"

text \<open>
  The curves named by the OBJECT IDENTIFIER tokens of a stream, in stream order, and
  the byte cursors of its BIT STRING and OCTET STRING tokens, in stream order.
\<close>

definition recognized_curves :: "memory \<Rightarrow> der_tlv list \<Rightarrow> int list" where
  "recognized_curves m ts =
     List.map_filter (\<lambda>t. oid_curve m (tlv_bytes t))
       (filter (\<lambda>t. tlv_type t = AWS_DER_OBJECT_IDENTIFIER) ts)"

definition is_string :: "der_tlv \<Rightarrow> bool" where
  "is_string t = (tlv_type t = AWS_DER_BIT_STRING \<or> tlv_type t = AWS_DER_OCTET_STRING)"

definition string_tokens :: "der_tlv list \<Rightarrow> aws_byte_cursor list" where
  "string_tokens ts = map tlv_bytes (filter is_string ts)"

section \<open>Example data\<close>

text \<open>
  A memory of seven buffers: the two OID encodings, a 32-byte scalar, a 65-byte blob
  whose first byte is \<open>0x00\<close>, a 10-byte string, a second 32-byte scalar and a 65-byte
  blob whose first byte is \<open>0x04\<close>; and tokens over them.
\<close>

definition example_memory :: memory where
  "example_memory =
     [s_p256_oid, s_p384_oid, replicate 32 0x11, 0x00 # replicate 64 0x22,
      replicate 10 0x33, replicate 32 0x44, 0x04 # replicate 64 0x55]"

text \<open>The same memory with the first byte of buffer 3 set to \<open>0x04\<close>.\<close>

definition example_memory_04 :: memory where
  "example_memory_04 = example_memory [3 := 0x04 # replicate 64 0x22]"

definition tok_oid_p256 :: der_tlv where
  "tok_oid_p256 =
     \<lparr>tlv_type = AWS_DER_OBJECT_IDENTIFIER, tlv_bytes = \<lparr>len = 8, ptr = Ptr (Buffer 0) 0\<rparr>\<rparr>"

definition tok_oid_p384 :: der_tlv where
  "tok_oid_p384 =
     \<lparr>tlv_type = AWS_DER_OBJECT_IDENTIFIER, tlv_bytes = \<lparr>len = 5, ptr = Ptr (Buffer 1) 0\<rparr>\<rparr>"

text \<open>An OBJECT IDENTIFIER token over the first four bytes of the P-384 OID.\<close>

definition tok_oid_short :: der_tlv where
  "tok_oid_short =
     \<lparr>tlv_type = AWS_DER_OBJECT_IDENTIFIER, tlv_bytes = \<lparr>len = 4, ptr = Ptr (Buffer 1) 0\<rparr>\<rparr>"

definition tok_scalar :: der_tlv where
  "tok_scalar =
     \<lparr>tlv_type = AWS_DER_OCTET_STRING, tlv_bytes = \<lparr>len = 32, ptr = Ptr (Buffer 2) 0\<rparr>\<rparr>"

definition tok_blob :: der_tlv where
  "tok_blob =
     \<lparr>tlv_type = AWS_DER_BIT_STRING, tlv_bytes = \<lparr>len = 65, ptr = Ptr (Buffer 3) 0\<rparr>\<rparr>"

definition tok_short :: der_tlv where
  "tok_short =
     \<lparr>tlv_type = AWS_DER_OCTET_STRING, tlv_bytes = \<lparr>len = 10, ptr = Ptr (Buffer 4) 0\<rparr>\<rparr>"

definition tok_scalar2 :: der_tlv where
  "tok_scalar2 =
     \<lparr>tlv_type = AWS_DER_OCTET_STRING, tlv_bytes = \<lparr>len = 32, ptr = Ptr (Buffer 5) 0\<rparr>\<rparr>"

definition tok_blob2 :: der_tlv where
  "tok_blob2 =
     \<lparr>tlv_type = AWS_DER_BIT_STRING, tlv_bytes = \<lparr>len = 65, ptr = Ptr (Buffer 6) 0\<rparr>\<rparr>"

text \<open>
  A mock backend whose private state counts the calls of its destroy operation, a
  vtable that binds all five operations to it and a vtable that binds none.
\<close>

definition mock_destroy :: "nat key_pair_fields \<Rightarrow> nat key_pair_fields" where
  "mock_destroy f = f\<lparr>impl := Suc (impl f)\<rparr>"

definition mock_derive_pub_key :: "nat key_pair_fields \<Rightarrow> int \<times> nat key_pair_fields" where
  "mock_derive_pub_key f = (0, f\<lparr>pub_x := priv_d f, pub_y := priv_d f\<rparr>)"

definition mock_sign_message ::
  "nat key_pair_fields \<Rightarrow> u8 list \<Rightarrow> u8 list \<Rightarrow> int \<times> u8 list" where
  "mock_sign_message f message signature = (0, signature @ priv_d f @ message)"

definition mock_verify_signature :: "nat key_pair_fields \<Rightarrow> u8 list \<Rightarrow> u8 list \<Rightarrow> int" where
  "mock_verify_signature f message signature =
     (if signature = pub_x f @ message then 0 else - 1)"

definition mock_signature_length :: "nat key_pair_fields \<Rightarrow> nat" where
  "mock_signature_length f = 72"

definition mock_vtable :: "nat aws_ecc_key_pair_vtable" where
  "mock_vtable =
     \<lparr>destroy = Some mock_destroy, derive_pub_key = Some mock_derive_pub_key,
      sign_message = Some mock_sign_message, verify_signature = Some mock_verify_signature,
      signature_length = Some mock_signature_length\<rparr>"

definition incomplete_vtable :: "nat aws_ecc_key_pair_vtable" where
  "incomplete_vtable =
     \<lparr>destroy = None, derive_pub_key = None, sign_message = None, verify_signature = None,
      signature_length = None\<rparr>"

definition mock_fields :: "nat key_pair_fields" where
  "mock_fields =
     \<lparr>ref_count = 1, curve_name = AWS_CAL_ECDSA_P256, pub_x = [], pub_y = [], priv_d = [7],
      impl = 0\<rparr>"

definition mock_key_pair :: "nat aws_ecc_key_pair" where
  "mock_key_pair = \<lparr>vtable = mock_vtable, members = mock_fields\<rparr>"

definition incomplete_key_pair :: "nat aws_ecc_key_pair" where
  "incomplete_key_pair = \<lparr>vtable = incomplete_vtable, members = mock_fields\<rparr>"

section \<open>The curve registry\<close>

lemma s_ecc_curve_oids_eq:
  "s_ecc_curve_oids = [Some s_ecc_p256_oid, Some s_ecc_p384_oid]"
  by (simp add: s_ecc_curve_oids_def AWS_CAL_ECDSA_P256_def AWS_CAL_ECDSA_P384_def)

lemma cursor_bytes_p256: "cursor_bytes m s_ecc_p256_oid = s_p256_oid"
  by (simp add: cursor_bytes_def s_ecc_p256_oid_def)

lemma cursor_bytes_p384: "cursor_bytes m s_ecc_p384_oid = s_p384_oid"
  by (simp add: cursor_bytes_def s_ecc_p384_oid_def)

text \<open>The comparison against a static cursor is an exact match of the OID bytes.\<close>

lemma eq_p256_iff: "aws_byte_cursor_eq m c s_ecc_p256_oid = cursor_is m c s_p256_oid"
  unfolding aws_byte_cursor_eq_def cursor_is_def cursor_bytes_p256
  by (auto simp: s_ecc_p256_oid_def s_p256_oid_def)

lemma eq_p384_iff: "aws_byte_cursor_eq m c s_ecc_p384_oid = cursor_is m c s_p384_oid"
  unfolding aws_byte_cursor_eq_def cursor_is_def cursor_bytes_p384
  by (auto simp: s_ecc_p384_oid_def s_p384_oid_def)

lemma curve_name_from_oid_eq:
  "aws_ecc_curve_name_from_oid m oid cn =
     (case oid_curve m oid of
        Some c \<Rightarrow> (AWS_OP_SUCCESS, c)
      | None \<Rightarrow> (AWS_OP_ERR AWS_ERROR_CAL_UNKNOWN_OBJECT_IDENTIFIER, cn))"
  by (simp add: aws_ecc_curve_name_from_oid_def oid_curve_def eq_p256_iff eq_p384_iff
      aws_raise_error_def)

text \<open>
  Claim C6. For each supported curve name, \<open>aws_ecc_oid_from_curve_name\<close> succeeds, and
  \<open>aws_ecc_curve_name_from_oid\<close> on the cursor it returns succeeds with the curve name
  one started from, whatever the two out parameters held before and whatever the
  memory holds.
\<close>

theorem oid_round_trip:
  "c \<in> {AWS_CAL_ECDSA_P256, AWS_CAL_ECDSA_P384} \<Longrightarrow>
     \<exists>oid. aws_ecc_oid_from_curve_name c oid0 = Some (AWS_OP_SUCCESS, oid) \<and>
           aws_ecc_curve_name_from_oid m oid cn0 = (AWS_OP_SUCCESS, c)"
proof -
  assume "c \<in> {AWS_CAL_ECDSA_P256, AWS_CAL_ECDSA_P384}"
  then consider "c = AWS_CAL_ECDSA_P256" | "c = AWS_CAL_ECDSA_P384"
    by auto
  then show ?thesis
  proof cases
    case 1
    have "aws_ecc_oid_from_curve_name c oid0 = Some (AWS_OP_SUCCESS, s_ecc_p256_oid)"
      by (simp add: 1 aws_ecc_oid_from_curve_name_def read_table_def s_ecc_curve_oids_eq
          AWS_CAL_ECDSA_P256_def AWS_CAL_ECDSA_P384_def)
    moreover have "cursor_is m s_ecc_p256_oid s_p256_oid"
      by (simp add: cursor_is_def cursor_bytes_def s_ecc_p256_oid_def)
    ultimately show ?thesis
      by (simp add: 1 aws_ecc_curve_name_from_oid_def eq_p256_iff)
  next
    case 2
    have "aws_ecc_oid_from_curve_name c oid0 = Some (AWS_OP_SUCCESS, s_ecc_p384_oid)"
      by (simp add: 2 aws_ecc_oid_from_curve_name_def read_table_def s_ecc_curve_oids_eq
          AWS_CAL_ECDSA_P256_def AWS_CAL_ECDSA_P384_def)
    moreover have "\<not> cursor_is m s_ecc_p384_oid s_p256_oid"
      by (simp add: cursor_is_def s_ecc_p384_oid_def s_p384_oid_def s_p256_oid_def)
    moreover have "cursor_is m s_ecc_p384_oid s_p384_oid"
      by (simp add: cursor_is_def cursor_bytes_def s_ecc_p384_oid_def)
    ultimately show ?thesis
      by (simp add: 2 aws_ecc_curve_name_from_oid_def eq_p256_iff eq_p384_iff)
  qed
qed

theorem oid_round_trip_witness:
  "AWS_CAL_ECDSA_P384 \<in> {AWS_CAL_ECDSA_P256, AWS_CAL_ECDSA_P384} \<and>
   (\<exists>oid. aws_ecc_oid_from_curve_name AWS_CAL_ECDSA_P384 zero_cursor = Some (AWS_OP_SUCCESS, oid) \<and>
          aws_ecc_curve_name_from_oid [] oid 7 = (AWS_OP_SUCCESS, AWS_CAL_ECDSA_P384))"
  using oid_round_trip [of AWS_CAL_ECDSA_P384 zero_cursor "[]" 7] by simp

text \<open>
  Claim C7. \<open>aws_ecc_oid_from_curve_name\<close> never reads outside the OID table (its result
  is never \<open>None\<close>, the undefined behaviour of the model). A curve name below
  \<open>AWS_CAL_ECDSA_P256\<close> or above \<open>AWS_CAL_ECDSA_P384\<close> fails with
  \<open>AWS_ERROR_CAL_UNSUPPORTED_ALGORITHM\<close> and leaves \<open>*oid\<close> as it was; a curve name in
  the range indexes an entry of the table, and that entry is returned.
\<close>

theorem oid_from_curve_name_bounds:
  "aws_ecc_oid_from_curve_name c oid \<noteq> None \<and>
   (c < AWS_CAL_ECDSA_P256 \<or> c > AWS_CAL_ECDSA_P384 \<longrightarrow>
      aws_ecc_oid_from_curve_name c oid =
        Some (AWS_OP_ERR AWS_ERROR_CAL_UNSUPPORTED_ALGORITHM, oid)) \<and>
   (AWS_CAL_ECDSA_P256 \<le> c \<and> c \<le> AWS_CAL_ECDSA_P384 \<longrightarrow>
      nat c < length s_ecc_curve_oids \<and>
      (\<exists>e. s_ecc_curve_oids ! nat c = Some e \<and>
           aws_ecc_oid_from_curve_name c oid = Some (AWS_OP_SUCCESS, e)))"
proof -
  have range: "c = 0 \<or> c = 1" if "AWS_CAL_ECDSA_P256 \<le> c" "c \<le> AWS_CAL_ECDSA_P384"
    using that by (auto simp: AWS_CAL_ECDSA_P256_def AWS_CAL_ECDSA_P384_def)
  have out: "aws_ecc_oid_from_curve_name c oid =
      Some (AWS_OP_ERR AWS_ERROR_CAL_UNSUPPORTED_ALGORITHM, oid)"
    if "c < AWS_CAL_ECDSA_P256 \<or> c > AWS_CAL_ECDSA_P384"
    using that by (simp add: aws_ecc_oid_from_curve_name_def aws_raise_error_def)
  have inside: "nat c < length s_ecc_curve_oids \<and>
      (\<exists>e. s_ecc_curve_oids ! nat c = Some e \<and>
           aws_ecc_oid_from_curve_name c oid = Some (AWS_OP_SUCCESS, e))"
    if "AWS_CAL_ECDSA_P256 \<le> c" "c \<le> AWS_CAL_ECDSA_P384"
    using range [OF that]
    by (auto simp: aws_ecc_oid_from_curve_name_def read_table_def s_ecc_curve_oids_eq
        AWS_CAL_ECDSA_P256_def AWS_CAL_ECDSA_P384_def)
  have "aws_ecc_oid_from_curve_name c oid \<noteq> None"
  proof (cases "c < AWS_CAL_ECDSA_P256 \<or> c > AWS_CAL_ECDSA_P384")
    case True
    then show ?thesis using out by simp
  next
    case False
    then show ?thesis using inside by auto
  qed
  then show ?thesis using out inside by blast
qed

theorem oid_from_curve_name_bounds_witness:
  "aws_ecc_oid_from_curve_name 2 zero_cursor =
     Some (AWS_OP_ERR AWS_ERROR_CAL_UNSUPPORTED_ALGORITHM, zero_cursor) \<and>
   aws_ecc_oid_from_curve_name (- 1) zero_cursor =
     Some (AWS_OP_ERR AWS_ERROR_CAL_UNSUPPORTED_ALGORITHM, zero_cursor) \<and>
   aws_ecc_oid_from_curve_name 1 zero_cursor = Some (AWS_OP_SUCCESS, s_ecc_p384_oid)"
  using oid_from_curve_name_bounds [of 2 zero_cursor]
    oid_from_curve_name_bounds [of "- 1" zero_cursor]
    oid_from_curve_name_bounds [of 1 zero_cursor]
  by (simp add: AWS_CAL_ECDSA_P256_def AWS_CAL_ECDSA_P384_def s_ecc_curve_oids_eq)

section \<open>The token loop\<close>

text \<open>The three ways the loop body treats a token.\<close>

lemma loop_body_oid:
  "tlv_type t = AWS_DER_OBJECT_IDENTIFIER \<Longrightarrow>
     loop_body m t s =
       (case oid_curve m (tlv_bytes t) of
          Some c \<Rightarrow> s\<lparr>out_curve_name := c, curve_name_recognized := True\<rparr>
        | None \<Rightarrow> s)"
  by (simp add: loop_body_def aws_der_decoder_tlv_type_def aws_der_decoder_tlv_blob_def
      curve_name_from_oid_eq split: option.split)

lemma loop_body_string:
  "is_string t \<Longrightarrow>
     loop_body m t s = (assign_part (current_part s) (tlv_bytes t) s)\<lparr>current_part := Part_2\<rparr>"
  by (auto simp: loop_body_def is_string_def aws_der_decoder_tlv_type_def
      aws_der_decoder_tlv_string_def Let_def)

lemma loop_body_other:
  "tlv_type t \<noteq> AWS_DER_OBJECT_IDENTIFIER \<Longrightarrow> \<not> is_string t \<Longrightarrow> loop_body m t s = s"
  by (simp add: loop_body_def is_string_def aws_der_decoder_tlv_type_def)

lemma is_string_not_oid: "is_string t \<Longrightarrow> tlv_type t \<noteq> AWS_DER_OBJECT_IDENTIFIER"
  by (auto simp: is_string_def)

lemma token_cases:
  obtains (oid) "tlv_type t = AWS_DER_OBJECT_IDENTIFIER" "\<not> is_string t"
  | (str) "is_string t" "tlv_type t \<noteq> AWS_DER_OBJECT_IDENTIFIER"
  | (other) "tlv_type t \<noteq> AWS_DER_OBJECT_IDENTIFIER" "\<not> is_string t"
  using is_string_not_oid by blast

lemma assign_part_other_fields:
  "out_public_x_coor (assign_part p c s) = out_public_x_coor s"
  "out_public_y_coor (assign_part p c s) = out_public_y_coor s"
  "out_private_d (assign_part p c s) = out_private_d s"
  "out_curve_name (assign_part p c s) = out_curve_name s"
  "curve_name_recognized (assign_part p c s) = curve_name_recognized s"
  "current_part (assign_part p c s) = current_part s"
  by (cases p; simp)+

lemma initial_vars_fields:
  "out_public_x_coor (initial_vars x0 y0 d0 cn0) = zero_cursor"
  "out_public_y_coor (initial_vars x0 y0 d0 cn0) = zero_cursor"
  "out_private_d (initial_vars x0 y0 d0 cn0) = zero_cursor"
  "out_curve_name (initial_vars x0 y0 d0 cn0) = cn0"
  "pair_part_1 (initial_vars x0 y0 d0 cn0) = zero_cursor"
  "pair_part_2 (initial_vars x0 y0 d0 cn0) = zero_cursor"
  "curve_name_recognized (initial_vars x0 y0 d0 cn0) = False"
  "current_part (initial_vars x0 y0 d0 cn0) = Part_1"
  by (simp_all add: initial_vars_def)

text \<open>The loop never writes the three output cursors.\<close>

lemma loop_body_outs:
  "out_public_x_coor (loop_body m t s) = out_public_x_coor s \<and>
   out_public_y_coor (loop_body m t s) = out_public_y_coor s \<and>
   out_private_d (loop_body m t s) = out_private_d s"
  by (cases t rule: token_cases)
    (simp_all add: loop_body_oid loop_body_string loop_body_other assign_part_other_fields
      split: option.split)

lemma token_loop_outs:
  "out_public_x_coor (token_loop m ts s) = out_public_x_coor s \<and>
   out_public_y_coor (token_loop m ts s) = out_public_y_coor s \<and>
   out_private_d (token_loop m ts s) = out_private_d s"
  by (induction ts arbitrary: s) (simp_all add: loop_body_outs)

lemma recognized_curves_Nil: "recognized_curves m [] = []"
  by (simp add: recognized_curves_def map_filter_simps)

lemma recognized_curves_Cons:
  "recognized_curves m (t # ts) =
     (if tlv_type t = AWS_DER_OBJECT_IDENTIFIER
      then (case oid_curve m (tlv_bytes t) of
              Some c \<Rightarrow> c # recognized_curves m ts
            | None \<Rightarrow> recognized_curves m ts)
      else recognized_curves m ts)"
  by (simp add: recognized_curves_def map_filter_simps split: option.split)

text \<open>
  After the loop a curve name is recognised exactly when it was before or the stream
  names a supported curve, and \<open>*out_curve_name\<close> holds the last curve the stream names.
\<close>

lemma token_loop_curve:
  "curve_name_recognized (token_loop m ts s) =
     (curve_name_recognized s \<or> recognized_curves m ts \<noteq> []) \<and>
   out_curve_name (token_loop m ts s) =
     (if recognized_curves m ts = [] then out_curve_name s else last (recognized_curves m ts))"
proof (induction ts arbitrary: s)
  case Nil
  show ?case by (simp add: recognized_curves_Nil)
next
  case (Cons t ts)
  show ?case
  proof (cases t rule: token_cases)
    case oid
    then show ?thesis
      by (cases "oid_curve m (tlv_bytes t)")
        (simp_all add: Cons.IH loop_body_oid recognized_curves_Cons)
  next
    case str
    then show ?thesis
      by (simp add: Cons.IH loop_body_string recognized_curves_Cons assign_part_other_fields)
  next
    case other
    then show ?thesis
      by (simp add: Cons.IH loop_body_other recognized_curves_Cons)
  qed
qed

lemma string_tokens_Nil: "string_tokens [] = []"
  by (simp add: string_tokens_def)

lemma string_tokens_Cons:
  "string_tokens (t # ts) =
     (if is_string t then tlv_bytes t # string_tokens ts else string_tokens ts)"
  by (simp add: string_tokens_def)

text \<open>
  Once \<open>current_part\<close> points to the second part it stays there: the first part is
  never written again, and every string token overwrites the second part.
\<close>

lemma token_loop_parts_second:
  "current_part s = Part_2 \<Longrightarrow>
     pair_part_1 (token_loop m ts s) = pair_part_1 s \<and>
     pair_part_2 (token_loop m ts s) =
       (if string_tokens ts = [] then pair_part_2 s else last (string_tokens ts))"
proof (induction ts arbitrary: s)
  case Nil
  show ?case by (simp add: string_tokens_Nil)
next
  case (Cons t ts)
  show ?case
  proof (cases t rule: token_cases)
    case oid
    then have "current_part (loop_body m t s) = Part_2"
      "pair_part_1 (loop_body m t s) = pair_part_1 s"
      "pair_part_2 (loop_body m t s) = pair_part_2 s"
      using Cons.prems by (auto simp: loop_body_oid split: option.split)
    then show ?thesis
      using Cons.IH [of "loop_body m t s"] oid by (simp add: string_tokens_Cons)
  next
    case str
    then have "current_part (loop_body m t s) = Part_2"
      "pair_part_1 (loop_body m t s) = pair_part_1 s"
      "pair_part_2 (loop_body m t s) = tlv_bytes t"
      using Cons.prems by (simp_all add: loop_body_string)
    then show ?thesis
      using Cons.IH [of "loop_body m t s"] str by (simp add: string_tokens_Cons)
  next
    case other
    then show ?thesis
      using Cons.IH [of s] Cons.prems by (simp add: loop_body_other string_tokens_Cons)
  qed
qed

lemma token_loop_parts_first:
  "current_part s = Part_1 \<Longrightarrow>
     pair_part_1 (token_loop m ts s) =
       (if string_tokens ts = [] then pair_part_1 s else hd (string_tokens ts)) \<and>
     pair_part_2 (token_loop m ts s) =
       (if length (string_tokens ts) < 2 then pair_part_2 s else last (string_tokens ts))"
proof (induction ts arbitrary: s)
  case Nil
  show ?case by (simp add: string_tokens_Nil)
next
  case (Cons t ts)
  show ?case
  proof (cases t rule: token_cases)
    case oid
    then have "current_part (loop_body m t s) = Part_1"
      "pair_part_1 (loop_body m t s) = pair_part_1 s"
      "pair_part_2 (loop_body m t s) = pair_part_2 s"
      using Cons.prems by (auto simp: loop_body_oid split: option.split)
    then show ?thesis
      using Cons.IH [of "loop_body m t s"] oid by (simp add: string_tokens_Cons)
  next
    case str
    then have "current_part (loop_body m t s) = Part_2"
      "pair_part_1 (loop_body m t s) = tlv_bytes t"
      "pair_part_2 (loop_body m t s) = pair_part_2 s"
      using Cons.prems by (simp_all add: loop_body_string)
    then show ?thesis
      using token_loop_parts_second [of "loop_body m t s" m ts] str
      by (auto simp: string_tokens_Cons)
  next
    case other
    then show ?thesis
      using Cons.IH [of s] Cons.prems by (simp add: loop_body_other string_tokens_Cons)
  qed
qed

text \<open>Unfolding the decoder on a concrete stream.\<close>

lemmas decoder_defs =
  aws_der_decoder_load_ecc_key_pair_def initial_vars_def loop_body_def export_keys_def
  export_public_key_def classify_parts_def classify_part_def
  aws_der_decoder_tlv_type_def aws_der_decoder_tlv_blob_def aws_der_decoder_tlv_string_def
  aws_ecc_curve_name_from_oid_def aws_byte_cursor_eq_def cursor_bytes_def
  aws_ecc_key_coordinate_byte_size_from_curve_name_def aws_byte_cursor_advance_def
  aws_raise_error_def zero_cursor_def SIZE_MAX_def
  s_ecc_p256_oid_def s_ecc_p384_oid_def s_p256_oid_def s_p384_oid_def
  AWS_CAL_ECDSA_P256_def AWS_CAL_ECDSA_P384_def

lemmas example_defs =
  example_memory_def tok_oid_p256_def tok_oid_p384_def tok_scalar_def tok_blob_def
  tok_short_def tok_scalar2_def tok_blob2_def

text \<open>
  Claim C1, as the code has it. The first part captures the first BIT STRING or OCTET
  STRING token of the stream and is never written again. The second part is written by
  every such token after the first, so it ends as the last one; it stays zeroed when the
  stream has fewer than two. A token after the second is not ignored: it replaces what
  the second part held.
\<close>

theorem captured_slots:
  "pair_part_1 (token_loop m decoder (initial_vars x0 y0 d0 cn0)) =
     (if string_tokens decoder = [] then zero_cursor else hd (string_tokens decoder)) \<and>
   pair_part_2 (token_loop m decoder (initial_vars x0 y0 d0 cn0)) =
     (if length (string_tokens decoder) < 2 then zero_cursor else last (string_tokens decoder))"
  using token_loop_parts_first [of "initial_vars x0 y0 d0 cn0" m decoder]
  by (simp add: initial_vars_fields)

text \<open>
  The theorem at a stream with three string tokens: the first part holds the first of
  them, the second part the third.
\<close>

theorem captured_slots_witness:
  "string_tokens [tok_oid_p256, tok_scalar, tok_blob, tok_short] =
     [tlv_bytes tok_scalar, tlv_bytes tok_blob, tlv_bytes tok_short] \<and>
   pair_part_1 (token_loop example_memory [tok_oid_p256, tok_scalar, tok_blob, tok_short]
      (initial_vars zero_cursor zero_cursor zero_cursor 7)) = tlv_bytes tok_scalar \<and>
   pair_part_2 (token_loop example_memory [tok_oid_p256, tok_scalar, tok_blob, tok_short]
      (initial_vars zero_cursor zero_cursor zero_cursor 7)) = tlv_bytes tok_short"
proof -
  have strs: "string_tokens [tok_oid_p256, tok_scalar, tok_blob, tok_short] =
     [tlv_bytes tok_scalar, tlv_bytes tok_blob, tlv_bytes tok_short]"
    by (simp add: string_tokens_def is_string_def example_defs)
  show ?thesis
    using captured_slots [of example_memory "[tok_oid_p256, tok_scalar, tok_blob, tok_short]"
        zero_cursor zero_cursor zero_cursor 7]
    by (simp add: strs)
qed

text \<open>
  The claim as the spec words it fails on a stream with three string tokens: the third
  (10 bytes) replaces the 65-byte blob in the second part, and the decoder, which returns
  the public coordinates on the first two tokens alone, returns none with the third.
\<close>

theorem third_string_overwrites_counterexample:
  "pair_part_2 (token_loop example_memory [tok_oid_p256, tok_scalar, tok_blob]
      (initial_vars zero_cursor zero_cursor zero_cursor 7)) = tlv_bytes tok_blob \<and>
   pair_part_2 (token_loop example_memory [tok_oid_p256, tok_scalar, tok_blob, tok_short]
      (initial_vars zero_cursor zero_cursor zero_cursor 7)) = tlv_bytes tok_short \<and>
   tlv_bytes tok_short \<noteq> tlv_bytes tok_blob \<and>
   out_public_x_coor (snd (aws_der_decoder_load_ecc_key_pair example_memory
      [tok_oid_p256, tok_scalar, tok_blob] zero_cursor zero_cursor zero_cursor 7)) =
     \<lparr>len = 32, ptr = Ptr (Buffer 3) 1\<rparr> \<and>
   out_public_x_coor (snd (aws_der_decoder_load_ecc_key_pair example_memory
      [tok_oid_p256, tok_scalar, tok_blob, tok_short] zero_cursor zero_cursor zero_cursor 7)) =
     zero_cursor"
  by (simp add: decoder_defs example_defs Let_def)

section \<open>Classification and export\<close>

lemma classify_parts_eq:
  "classify_parts cs s =
     (if ptr (pair_part_2 s) \<noteq> Null \<and> len (pair_part_2 s) \<noteq> 0 \<and> len (pair_part_2 s) = cs
      then Some Part_2
      else if ptr (pair_part_1 s) \<noteq> Null \<and> len (pair_part_1 s) \<noteq> 0 \<and> len (pair_part_1 s) = cs
      then Some Part_1 else None,
      if ptr (pair_part_2 s) \<noteq> Null \<and> len (pair_part_2 s) \<noteq> cs \<and>
         len (pair_part_2 s) = cs * 2 + 1
      then Some Part_2
      else if ptr (pair_part_1 s) \<noteq> Null \<and> len (pair_part_1 s) \<noteq> cs \<and>
         len (pair_part_1 s) = cs * 2 + 1
      then Some Part_1 else None)"
  by (simp add: classify_parts_def classify_part_def Let_def)

text \<open>A recognised curve name is one of the two supported ones: 32 or 48 bytes.\<close>

lemma coordinate_size_recognized:
  "curve_name_recognized (token_loop m ts (initial_vars x0 y0 d0 cn0)) \<Longrightarrow>
     aws_ecc_key_coordinate_byte_size_from_curve_name
       (out_curve_name (token_loop m ts (initial_vars x0 y0 d0 cn0))) \<in> {32, 48}"
proof -
  assume "curve_name_recognized (token_loop m ts (initial_vars x0 y0 d0 cn0))"
  then have ne: "recognized_curves m ts \<noteq> []"
    by (simp add: token_loop_curve initial_vars_fields)
  have "set (recognized_curves m ts) \<subseteq> {AWS_CAL_ECDSA_P256, AWS_CAL_ECDSA_P384}"
    by (induction ts)
      (auto simp: recognized_curves_Nil recognized_curves_Cons oid_curve_def split: if_splits)
  with ne have "last (recognized_curves m ts) \<in> {AWS_CAL_ECDSA_P256, AWS_CAL_ECDSA_P384}"
    using last_in_set by blast
  with ne show ?thesis
    by (auto simp: token_loop_curve aws_ecc_key_coordinate_byte_size_from_curve_name_def
        AWS_CAL_ECDSA_P256_def AWS_CAL_ECDSA_P384_def)
qed

lemma advance_one:
  "len c = cs * 2 + 1 \<Longrightarrow> cs \<in> {32, 48} \<Longrightarrow>
     snd (aws_byte_cursor_advance c 1) = \<lparr>len = cs * 2, ptr = ptr_add (ptr c) 1\<rparr>"
  by (auto simp: aws_byte_cursor_advance_def SIZE_MAX_def)

lemma ptr_add_add: "ptr_add (ptr_add p a) b = ptr_add p (a + b)"
  by (cases p) simp_all

lemma export_public_key_views:
  assumes "len (deref_part p s) = cs * 2 + 1" and "cs \<in> {32, 48}"
  shows "out_public_x_coor (export_public_key cs p s) =
           \<lparr>len = cs, ptr = ptr_add (ptr (deref_part p s)) 1\<rparr>"
    and "out_public_y_coor (export_public_key cs p s) =
           \<lparr>len = cs, ptr = ptr_add (ptr (deref_part p s)) (1 + cs)\<rparr>"
    and "out_private_d (export_public_key cs p s) = out_private_d s"
    and "out_curve_name (export_public_key cs p s) = out_curve_name s"
  using advance_one [OF assms]
  by (cases p; simp add: export_public_key_def Let_def ptr_add_add)+

text \<open>The bytes of a cursor cut out of another cursor.\<close>

lemma cursor_bytes_sub:
  "k + n \<le> len c \<Longrightarrow>
     cursor_bytes m \<lparr>len = n, ptr = ptr_add (ptr c) k\<rparr> = take n (drop k (cursor_bytes m c))"
proof (cases "ptr c")
  case Null
  then show ?thesis by (simp add: cursor_bytes_def)
next
  case (Ptr b off)
  assume le: "k + n \<le> len c"
  have "take n (drop k (take (len c) (drop off (block_bytes m b)))) =
      take n (take (len c - k) (drop k (drop off (block_bytes m b))))"
    by (simp add: drop_take)
  also have "\<dots> = take n (drop (off + k) (block_bytes m b))"
    using le by (simp add: min_def add.commute)
  finally show ?thesis
    using Ptr by (simp add: cursor_bytes_def)
qed

lemma export_keys_status:
  "fst (export_keys s) = AWS_OP_SUCCESS \<or>
   export_keys s = (AWS_OP_ERR AWS_ERROR_CAL_MISSING_REQUIRED_KEY_COMPONENT, s)"
  by (simp add: export_keys_def Let_def aws_raise_error_def split: prod.split)

section \<open>The decoder as a whole\<close>

text \<open>
  Claim C2, as the code has it. When a public blob is identified (the last part that is
  not null and \<open>2 * coordinate_size + 1\<close> bytes long), decoding succeeds; the X view is
  the \<open>coordinate_size\<close> bytes after the first byte of the blob and the Y view the
  \<open>coordinate_size\<close> bytes after those. The first byte is skipped and never read: the
  statement holds for every memory, whatever that byte is.
\<close>

theorem public_blob_split:
  assumes "s = token_loop m decoder (initial_vars x0 y0 d0 cn0)"
    and "curve_name_recognized s"
    and "cs = aws_ecc_key_coordinate_byte_size_from_curve_name (out_curve_name s)"
    and "blob = (if ptr (pair_part_2 s) \<noteq> Null \<and> len (pair_part_2 s) = 2 * cs + 1
                 then pair_part_2 s else pair_part_1 s)"
    and "ptr blob \<noteq> Null" and "len blob = 2 * cs + 1"
    and "r = aws_der_decoder_load_ecc_key_pair m decoder x0 y0 d0 cn0"
  shows "fst r = AWS_OP_SUCCESS \<and>
         out_public_x_coor (snd r) = \<lparr>len = cs, ptr = ptr_add (ptr blob) 1\<rparr> \<and>
         out_public_y_coor (snd r) = \<lparr>len = cs, ptr = ptr_add (ptr blob) (1 + cs)\<rparr> \<and>
         cursor_bytes m (out_public_x_coor (snd r)) = take cs (drop 1 (cursor_bytes m blob)) \<and>
         cursor_bytes m (out_public_y_coor (snd r)) =
           take cs (drop (1 + cs) (cursor_bytes m blob))"
proof -
  have cs: "cs \<in> {32, 48}"
    using assms(1-3) coordinate_size_recognized by blast
  define p where "p = (if ptr (pair_part_2 s) \<noteq> Null \<and> len (pair_part_2 s) = 2 * cs + 1
                       then Part_2 else Part_1)"
  have blob: "blob = deref_part p s"
    using assms(4) by (simp add: p_def)
  have "ptr (deref_part p s) \<noteq> Null" "len (deref_part p s) = cs * 2 + 1"
    using assms(5,6) by (simp_all add: blob)
  then have pub: "snd (classify_parts cs s) = Some p"
    using cs by (auto simp: classify_parts_eq p_def split: if_splits)
  obtain priv where cl: "classify_parts cs s = (priv, Some p)"
    using pub by (cases "classify_parts cs s") simp
  define s1 where
    "s1 = (case priv of None \<Rightarrow> s | Some q \<Rightarrow> s\<lparr>out_private_d := deref_part q s\<rparr>)"
  have parts: "deref_part p s1 = deref_part p s"
    by (cases p; cases priv; simp add: s1_def)
  have r: "r = (AWS_OP_SUCCESS, export_public_key cs p s1)"
    using assms(2,3,7) cl
    by (simp add: aws_der_decoder_load_ecc_key_pair_def assms(1) [symmetric] export_keys_def
        Let_def s1_def)
  have len: "len (deref_part p s1) = cs * 2 + 1"
    using assms(6) blob parts by simp
  have x: "out_public_x_coor (snd r) = \<lparr>len = cs, ptr = ptr_add (ptr blob) 1\<rparr>"
    and y: "out_public_y_coor (snd r) = \<lparr>len = cs, ptr = ptr_add (ptr blob) (1 + cs)\<rparr>"
    using export_public_key_views(1,2) [OF len cs] by (simp_all add: r blob parts)
  have "cursor_bytes m (out_public_x_coor (snd r)) = take cs (drop 1 (cursor_bytes m blob))"
    unfolding x using assms(6) by (intro cursor_bytes_sub) simp
  moreover have "cursor_bytes m (out_public_y_coor (snd r)) =
      take cs (drop (1 + cs) (cursor_bytes m blob))"
    unfolding y using assms(6) by (intro cursor_bytes_sub) simp
  ultimately show ?thesis
    using x y r by simp
qed

text \<open>
  The theorem at a P-256 stream whose 65-byte blob starts with \<open>0x00\<close>: both views are
  the 32 bytes \<open>0x22\<close> that follow.
\<close>

theorem public_blob_split_witness:
  "cursor_bytes example_memory (tlv_bytes tok_blob) ! 0 = 0 \<and>
   fst (aws_der_decoder_load_ecc_key_pair example_memory [tok_oid_p256, tok_blob]
      zero_cursor zero_cursor zero_cursor 7) = AWS_OP_SUCCESS \<and>
   cursor_bytes example_memory
     (out_public_x_coor (snd (aws_der_decoder_load_ecc_key_pair example_memory
        [tok_oid_p256, tok_blob] zero_cursor zero_cursor zero_cursor 7))) =
     replicate 32 0x22 \<and>
   cursor_bytes example_memory
     (out_public_y_coor (snd (aws_der_decoder_load_ecc_key_pair example_memory
        [tok_oid_p256, tok_blob] zero_cursor zero_cursor zero_cursor 7))) =
     replicate 32 0x22"
proof -
  define s where "s = token_loop example_memory [tok_oid_p256, tok_blob]
      (initial_vars zero_cursor zero_cursor zero_cursor 7)"
  have s: "s = \<lparr>out_public_x_coor = zero_cursor, out_public_y_coor = zero_cursor,
      out_private_d = zero_cursor, out_curve_name = 0,
      pair_part_1 = tlv_bytes tok_blob, pair_part_2 = zero_cursor,
      curve_name_recognized = True, current_part = Part_2\<rparr>"
    unfolding s_def by (simp add: decoder_defs example_defs Let_def)
  have h2: "curve_name_recognized s"
    by (simp add: s)
  have h3: "32 = aws_ecc_key_coordinate_byte_size_from_curve_name (out_curve_name s)"
    by (simp add: s aws_ecc_key_coordinate_byte_size_from_curve_name_def
        AWS_CAL_ECDSA_P256_def)
  have h4: "tlv_bytes tok_blob =
      (if ptr (pair_part_2 s) \<noteq> Null \<and> len (pair_part_2 s) = 2 * 32 + 1
       then pair_part_2 s else pair_part_1 s)"
    by (simp add: s zero_cursor_def)
  have h5: "ptr (tlv_bytes tok_blob) \<noteq> Null" and h6: "len (tlv_bytes tok_blob) = 2 * 32 + 1"
    by (simp_all add: tok_blob_def)
  have bytes: "cursor_bytes example_memory (tlv_bytes tok_blob) = 0 # replicate 64 0x22"
    by (simp add: cursor_bytes_def example_defs)
  show ?thesis
    using public_blob_split [OF s_def h2 h3 h4 h5 h6 refl]
    by (elim conjE) (simp add: bytes)
qed

text \<open>
  The claim as the spec words it fails: nothing verifies the first byte. On a blob that
  starts with \<open>0x00\<close> the decoder succeeds and returns the same views, and the same
  result altogether, as on the blob with \<open>0x04\<close> in its place.
\<close>

theorem first_byte_unchecked_counterexample:
  "cursor_bytes example_memory (tlv_bytes tok_blob) ! 0 \<noteq> 0x04 \<and>
   cursor_bytes example_memory_04 (tlv_bytes tok_blob) ! 0 = 0x04 \<and>
   aws_der_decoder_load_ecc_key_pair example_memory [tok_oid_p256, tok_blob]
      zero_cursor zero_cursor zero_cursor 7 =
     aws_der_decoder_load_ecc_key_pair example_memory_04 [tok_oid_p256, tok_blob]
      zero_cursor zero_cursor zero_cursor 7 \<and>
   fst (aws_der_decoder_load_ecc_key_pair example_memory [tok_oid_p256, tok_blob]
      zero_cursor zero_cursor zero_cursor 7) = AWS_OP_SUCCESS \<and>
   out_public_x_coor (snd (aws_der_decoder_load_ecc_key_pair example_memory
      [tok_oid_p256, tok_blob] zero_cursor zero_cursor zero_cursor 7)) =
     \<lparr>len = 32, ptr = Ptr (Buffer 3) 1\<rparr> \<and>
   out_public_y_coor (snd (aws_der_decoder_load_ecc_key_pair example_memory
      [tok_oid_p256, tok_blob] zero_cursor zero_cursor zero_cursor 7)) =
     \<lparr>len = 32, ptr = Ptr (Buffer 3) 33\<rparr>"
  by (simp add: decoder_defs example_defs example_memory_04_def Let_def)

text \<open>
  Claim C3. Whenever the decoder returns an error, the error is
  \<open>AWS_ERROR_CAL_UNKNOWN_OBJECT_IDENTIFIER\<close> or
  \<open>AWS_ERROR_CAL_MISSING_REQUIRED_KEY_COMPONENT\<close> and the three output cursors are
  zeroed, whatever they held when the decoder was called.
\<close>

theorem failure_leaves_outputs_zeroed:
  assumes "aws_der_decoder_load_ecc_key_pair m decoder x0 y0 d0 cn0 = (AWS_OP_ERR e, s)"
  shows "(e = AWS_ERROR_CAL_UNKNOWN_OBJECT_IDENTIFIER \<or>
          e = AWS_ERROR_CAL_MISSING_REQUIRED_KEY_COMPONENT) \<and>
         out_public_x_coor s = zero_cursor \<and>
         out_public_y_coor s = zero_cursor \<and>
         out_private_d s = zero_cursor"
proof -
  define s' where "s' = token_loop m decoder (initial_vars x0 y0 d0 cn0)"
  have zero: "out_public_x_coor s' = zero_cursor \<and> out_public_y_coor s' = zero_cursor \<and>
      out_private_d s' = zero_cursor"
    unfolding s'_def using token_loop_outs [of m decoder "initial_vars x0 y0 d0 cn0"]
    by (simp add: initial_vars_fields)
  show ?thesis
  proof (cases "curve_name_recognized s'")
    case False
    then have "aws_der_decoder_load_ecc_key_pair m decoder x0 y0 d0 cn0 =
        (AWS_OP_ERR AWS_ERROR_CAL_UNKNOWN_OBJECT_IDENTIFIER, s')"
      by (simp add: aws_der_decoder_load_ecc_key_pair_def s'_def aws_raise_error_def)
    with assms zero show ?thesis by simp
  next
    case True
    then have eq: "aws_der_decoder_load_ecc_key_pair m decoder x0 y0 d0 cn0 = export_keys s'"
      by (simp add: aws_der_decoder_load_ecc_key_pair_def s'_def)
    with assms have "fst (export_keys s') \<noteq> AWS_OP_SUCCESS" by simp
    with export_keys_status [of s']
    have "export_keys s' = (AWS_OP_ERR AWS_ERROR_CAL_MISSING_REQUIRED_KEY_COMPONENT, s')"
      by blast
    with assms eq zero show ?thesis by simp
  qed
qed

text \<open>
  The theorem at a P-384 stream with a 10-byte string, called with three output cursors
  that hold stale views.
\<close>

theorem failure_leaves_outputs_zeroed_witness:
  "aws_der_decoder_load_ecc_key_pair example_memory [tok_oid_p384, tok_short]
      (tlv_bytes tok_scalar) (tlv_bytes tok_blob) (tlv_bytes tok_scalar2) 7 =
     (AWS_OP_ERR AWS_ERROR_CAL_MISSING_REQUIRED_KEY_COMPONENT,
      \<lparr>out_public_x_coor = zero_cursor, out_public_y_coor = zero_cursor,
       out_private_d = zero_cursor, out_curve_name = AWS_CAL_ECDSA_P384,
       pair_part_1 = tlv_bytes tok_short, pair_part_2 = zero_cursor,
       curve_name_recognized = True, current_part = Part_2\<rparr>) \<and>
   tlv_bytes tok_scalar \<noteq> zero_cursor"
proof -
  have run: "aws_der_decoder_load_ecc_key_pair example_memory [tok_oid_p384, tok_short]
      (tlv_bytes tok_scalar) (tlv_bytes tok_blob) (tlv_bytes tok_scalar2) 7 =
     (AWS_OP_ERR AWS_ERROR_CAL_MISSING_REQUIRED_KEY_COMPONENT,
      \<lparr>out_public_x_coor = zero_cursor, out_public_y_coor = zero_cursor,
       out_private_d = zero_cursor, out_curve_name = AWS_CAL_ECDSA_P384,
       pair_part_1 = tlv_bytes tok_short, pair_part_2 = zero_cursor,
       curve_name_recognized = True, current_part = Part_2\<rparr>)"
    by (simp add: decoder_defs example_defs Let_def)
  show ?thesis
    using failure_leaves_outputs_zeroed [OF run] run
    by (simp add: tok_scalar_def zero_cursor_def)
qed

text \<open>
  Claim C4. When a curve is recognised and both parts are captured with the same length,
  the coordinate size or the public blob size, decoding succeeds and the second part
  alone is classified and exported: as the private scalar (the public views stay zeroed)
  or as the public blob (the private view stays zeroed).
\<close>

theorem same_role_last_write_wins:
  assumes "s = token_loop m decoder (initial_vars x0 y0 d0 cn0)"
    and "curve_name_recognized s"
    and "cs = aws_ecc_key_coordinate_byte_size_from_curve_name (out_curve_name s)"
    and "ptr (pair_part_1 s) \<noteq> Null" and "ptr (pair_part_2 s) \<noteq> Null"
    and "len (pair_part_1 s) = len (pair_part_2 s)"
    and "len (pair_part_2 s) = cs \<or> len (pair_part_2 s) = 2 * cs + 1"
    and "r = aws_der_decoder_load_ecc_key_pair m decoder x0 y0 d0 cn0"
  shows "fst r = AWS_OP_SUCCESS \<and>
         (if len (pair_part_2 s) = cs
          then classify_parts cs s = (Some Part_2, None) \<and>
               out_private_d (snd r) = pair_part_2 s \<and>
               out_public_x_coor (snd r) = zero_cursor \<and>
               out_public_y_coor (snd r) = zero_cursor
          else classify_parts cs s = (None, Some Part_2) \<and>
               out_private_d (snd r) = zero_cursor \<and>
               out_public_x_coor (snd r) =
                 \<lparr>len = cs, ptr = ptr_add (ptr (pair_part_2 s)) 1\<rparr> \<and>
               out_public_y_coor (snd r) =
                 \<lparr>len = cs, ptr = ptr_add (ptr (pair_part_2 s)) (1 + cs)\<rparr>)"
proof -
  have cs: "cs \<in> {32, 48}"
    using assms(1-3) coordinate_size_recognized by blast
  have zero: "out_public_x_coor s = zero_cursor" "out_public_y_coor s = zero_cursor"
    "out_private_d s = zero_cursor"
    unfolding assms(1) using token_loop_outs [of m decoder "initial_vars x0 y0 d0 cn0"]
    by (simp_all add: initial_vars_fields)
  have r: "r = export_keys s"
    using assms(1,2,8) by (simp add: aws_der_decoder_load_ecc_key_pair_def)
  show ?thesis
  proof (cases "len (pair_part_2 s) = cs")
    case True
    then have cl: "classify_parts cs s = (Some Part_2, None)"
      using assms(4-6) cs by (auto simp: classify_parts_eq)
    then have "r = (AWS_OP_SUCCESS, s\<lparr>out_private_d := pair_part_2 s\<rparr>)"
      using assms(3) by (simp add: r export_keys_def Let_def)
    then show ?thesis
      using True cl zero by simp
  next
    case False
    then have len: "len (deref_part Part_2 s) = cs * 2 + 1"
      using assms(7) by simp
    then have cl: "classify_parts cs s = (None, Some Part_2)"
      using assms(4-6) cs by (auto simp: classify_parts_eq)
    then have "r = (AWS_OP_SUCCESS, export_public_key cs Part_2 s)"
      using assms(3) by (simp add: r export_keys_def Let_def)
    then show ?thesis
      using False cl zero export_public_key_views [OF len cs] by simp
  qed
qed

text \<open>
  The theorem at a P-256 stream with two 32-byte strings, and at one with two 65-byte
  strings: the second one is returned each time.
\<close>

theorem same_role_last_write_wins_witness:
  "fst (aws_der_decoder_load_ecc_key_pair example_memory
      [tok_oid_p256, tok_scalar, tok_scalar2] zero_cursor zero_cursor zero_cursor 7) =
     AWS_OP_SUCCESS \<and>
   out_private_d (snd (aws_der_decoder_load_ecc_key_pair example_memory
      [tok_oid_p256, tok_scalar, tok_scalar2] zero_cursor zero_cursor zero_cursor 7)) =
     tlv_bytes tok_scalar2 \<and>
   fst (aws_der_decoder_load_ecc_key_pair example_memory
      [tok_blob, tok_oid_p256, tok_blob2] zero_cursor zero_cursor zero_cursor 7) =
     AWS_OP_SUCCESS \<and>
   out_public_x_coor (snd (aws_der_decoder_load_ecc_key_pair example_memory
      [tok_blob, tok_oid_p256, tok_blob2] zero_cursor zero_cursor zero_cursor 7)) =
     \<lparr>len = 32, ptr = Ptr (Buffer 6) 1\<rparr>"
proof -
  define s1 where "s1 = token_loop example_memory [tok_oid_p256, tok_scalar, tok_scalar2]
      (initial_vars zero_cursor zero_cursor zero_cursor 7)"
  define s2 where "s2 = token_loop example_memory [tok_blob, tok_oid_p256, tok_blob2]
      (initial_vars zero_cursor zero_cursor zero_cursor 7)"
  have s1: "s1 = \<lparr>out_public_x_coor = zero_cursor, out_public_y_coor = zero_cursor,
      out_private_d = zero_cursor, out_curve_name = 0,
      pair_part_1 = tlv_bytes tok_scalar, pair_part_2 = tlv_bytes tok_scalar2,
      curve_name_recognized = True, current_part = Part_2\<rparr>"
    unfolding s1_def by (simp add: decoder_defs example_defs Let_def)
  have s2: "s2 = \<lparr>out_public_x_coor = zero_cursor, out_public_y_coor = zero_cursor,
      out_private_d = zero_cursor, out_curve_name = 0,
      pair_part_1 = tlv_bytes tok_blob, pair_part_2 = tlv_bytes tok_blob2,
      curve_name_recognized = True, current_part = Part_2\<rparr>"
    unfolding s2_def by (simp add: decoder_defs example_defs Let_def)
  have cs: "32 = aws_ecc_key_coordinate_byte_size_from_curve_name (out_curve_name s1)"
    "32 = aws_ecc_key_coordinate_byte_size_from_curve_name (out_curve_name s2)"
    by (simp_all add: s1 s2 aws_ecc_key_coordinate_byte_size_from_curve_name_def
        AWS_CAL_ECDSA_P256_def)
  have a: "curve_name_recognized s1" "ptr (pair_part_1 s1) \<noteq> Null"
    "ptr (pair_part_2 s1) \<noteq> Null" "len (pair_part_1 s1) = len (pair_part_2 s1)"
    "len (pair_part_2 s1) = 32 \<or> len (pair_part_2 s1) = 2 * 32 + 1"
    by (simp_all add: s1 example_defs)
  have b: "curve_name_recognized s2" "ptr (pair_part_1 s2) \<noteq> Null"
    "ptr (pair_part_2 s2) \<noteq> Null" "len (pair_part_1 s2) = len (pair_part_2 s2)"
    "len (pair_part_2 s2) = 32 \<or> len (pair_part_2 s2) = 2 * 32 + 1"
    by (simp_all add: s2 example_defs)
  show ?thesis
    using same_role_last_write_wins [OF s1_def a(1) cs(1) a(2-5) refl]
      same_role_last_write_wins [OF s2_def b(1) cs(2) b(2-5) refl]
    by (simp add: s1 s2 example_defs)
qed

text \<open>
  Claim C5. When no OBJECT IDENTIFIER token of the stream holds the bytes of a supported
  curve OID, the decoder fails with \<open>AWS_ERROR_CAL_UNKNOWN_OBJECT_IDENTIFIER\<close>, whatever
  BIT STRING and OCTET STRING tokens the stream has. Nothing after the loop has run by
  then: the variables returned are those the loop left, and \<open>*out_curve_name\<close> is as the
  caller passed it.
\<close>

theorem unknown_oid_without_curve:
  assumes "\<forall>t \<in> set decoder. tlv_type t = AWS_DER_OBJECT_IDENTIFIER \<longrightarrow>
             \<not> cursor_is m (tlv_bytes t) s_p256_oid \<and> \<not> cursor_is m (tlv_bytes t) s_p384_oid"
  shows "aws_der_decoder_load_ecc_key_pair m decoder x0 y0 d0 cn0 =
           (AWS_OP_ERR AWS_ERROR_CAL_UNKNOWN_OBJECT_IDENTIFIER,
            token_loop m decoder (initial_vars x0 y0 d0 cn0)) \<and>
         out_curve_name (token_loop m decoder (initial_vars x0 y0 d0 cn0)) = cn0"
proof -
  have "recognized_curves m ts = []"
    if "\<forall>t \<in> set ts. tlv_type t = AWS_DER_OBJECT_IDENTIFIER \<longrightarrow>
          \<not> cursor_is m (tlv_bytes t) s_p256_oid \<and> \<not> cursor_is m (tlv_bytes t) s_p384_oid"
    for ts
    using that
    by (induction ts) (simp_all add: recognized_curves_Nil recognized_curves_Cons oid_curve_def)
  with assms have none: "recognized_curves m decoder = []" by blast
  then have "\<not> curve_name_recognized (token_loop m decoder (initial_vars x0 y0 d0 cn0))"
    by (simp add: token_loop_curve initial_vars_fields)
  then show ?thesis
    using none
    by (simp add: aws_der_decoder_load_ecc_key_pair_def aws_raise_error_def token_loop_curve
        initial_vars_fields)
qed

text \<open>
  The theorem at a stream with key material whose only OBJECT IDENTIFIER token holds
  the first four bytes of the P-384 OID.
\<close>

theorem unknown_oid_without_curve_witness:
  "tlv_type tok_scalar = AWS_DER_OCTET_STRING \<and>
   tlv_type tok_blob = AWS_DER_BIT_STRING \<and>
   tlv_type tok_short = AWS_DER_OCTET_STRING \<and>
   tlv_type tok_oid_short = AWS_DER_OBJECT_IDENTIFIER \<and>
   \<not> cursor_is example_memory (tlv_bytes tok_oid_short) s_p256_oid \<and>
   \<not> cursor_is example_memory (tlv_bytes tok_oid_short) s_p384_oid \<and>
   fst (aws_der_decoder_load_ecc_key_pair example_memory
      [tok_scalar, tok_oid_short, tok_blob, tok_short]
      zero_cursor zero_cursor zero_cursor AWS_CAL_ECDSA_P256) =
     AWS_OP_ERR AWS_ERROR_CAL_UNKNOWN_OBJECT_IDENTIFIER"
proof -
  have types: "tlv_type tok_scalar = AWS_DER_OCTET_STRING"
    "tlv_type tok_blob = AWS_DER_BIT_STRING" "tlv_type tok_short = AWS_DER_OCTET_STRING"
    "tlv_type tok_oid_short = AWS_DER_OBJECT_IDENTIFIER"
    by (simp_all add: example_defs tok_oid_short_def)
  have other: "\<not> cursor_is example_memory (tlv_bytes tok_oid_short) s_p256_oid"
    "\<not> cursor_is example_memory (tlv_bytes tok_oid_short) s_p384_oid"
    by (simp_all add: cursor_is_def tok_oid_short_def s_p256_oid_def s_p384_oid_def)
  have h: "\<forall>t \<in> set [tok_scalar, tok_oid_short, tok_blob, tok_short].
      tlv_type t = AWS_DER_OBJECT_IDENTIFIER \<longrightarrow>
        \<not> cursor_is example_memory (tlv_bytes t) s_p256_oid \<and>
        \<not> cursor_is example_memory (tlv_bytes t) s_p384_oid"
    using types other by simp
  show ?thesis
    using types other unknown_oid_without_curve [OF h, of zero_cursor zero_cursor zero_cursor
        AWS_CAL_ECDSA_P256]
    by simp
qed

text \<open>
  Claim C10. When the decoder fails with
  \<open>AWS_ERROR_CAL_MISSING_REQUIRED_KEY_COMPONENT\<close>, the stream names a supported curve
  and \<open>*out_curve_name\<close> holds the last curve it names, whatever the caller passed.
\<close>

theorem missing_component_sets_curve_name:
  assumes "fst (aws_der_decoder_load_ecc_key_pair m decoder x0 y0 d0 cn0) =
             AWS_OP_ERR AWS_ERROR_CAL_MISSING_REQUIRED_KEY_COMPONENT"
  shows "recognized_curves m decoder \<noteq> [] \<and>
         out_curve_name (snd (aws_der_decoder_load_ecc_key_pair m decoder x0 y0 d0 cn0)) =
           last (recognized_curves m decoder)"
proof -
  define s' where "s' = token_loop m decoder (initial_vars x0 y0 d0 cn0)"
  have rec: "curve_name_recognized s'"
  proof (rule ccontr)
    assume "\<not> curve_name_recognized s'"
    then have "fst (aws_der_decoder_load_ecc_key_pair m decoder x0 y0 d0 cn0) =
        AWS_OP_ERR AWS_ERROR_CAL_UNKNOWN_OBJECT_IDENTIFIER"
      by (simp add: aws_der_decoder_load_ecc_key_pair_def s'_def aws_raise_error_def)
    with assms show False by simp
  qed
  then have ne: "recognized_curves m decoder \<noteq> []"
    by (simp add: s'_def token_loop_curve initial_vars_fields)
  then have cn: "out_curve_name s' = last (recognized_curves m decoder)"
    by (simp add: s'_def token_loop_curve)
  from rec have eq: "aws_der_decoder_load_ecc_key_pair m decoder x0 y0 d0 cn0 = export_keys s'"
    by (simp add: aws_der_decoder_load_ecc_key_pair_def s'_def)
  with assms have "fst (export_keys s') \<noteq> AWS_OP_SUCCESS" by simp
  with export_keys_status [of s']
  have "snd (export_keys s') = s'" by auto
  with eq ne cn show ?thesis by simp
qed

text \<open>
  The theorem at a stream that names P-256, then P-384, and has one 10-byte string: the
  caller's 7 is replaced by \<open>AWS_CAL_ECDSA_P384\<close>.
\<close>

theorem missing_component_sets_curve_name_witness:
  "fst (aws_der_decoder_load_ecc_key_pair example_memory [tok_oid_p256, tok_oid_p384, tok_short]
      zero_cursor zero_cursor zero_cursor 7) =
     AWS_OP_ERR AWS_ERROR_CAL_MISSING_REQUIRED_KEY_COMPONENT \<and>
   out_curve_name (snd (aws_der_decoder_load_ecc_key_pair example_memory
      [tok_oid_p256, tok_oid_p384, tok_short] zero_cursor zero_cursor zero_cursor 7)) =
     AWS_CAL_ECDSA_P384 \<and>
   recognized_curves example_memory [tok_oid_p256, tok_oid_p384, tok_short] =
     [AWS_CAL_ECDSA_P256, AWS_CAL_ECDSA_P384]"
proof -
  have run: "fst (aws_der_decoder_load_ecc_key_pair example_memory
      [tok_oid_p256, tok_oid_p384, tok_short] zero_cursor zero_cursor zero_cursor 7) =
     AWS_OP_ERR AWS_ERROR_CAL_MISSING_REQUIRED_KEY_COMPONENT"
    by (simp add: decoder_defs example_defs Let_def)
  have curves: "recognized_curves example_memory [tok_oid_p256, tok_oid_p384, tok_short] =
     [AWS_CAL_ECDSA_P256, AWS_CAL_ECDSA_P384]"
    by (simp add: recognized_curves_def map_filter_simps oid_curve_def cursor_is_def
        cursor_bytes_def example_defs s_p256_oid_def s_p384_oid_def)
  show ?thesis
    using missing_component_sets_curve_name [OF run] run curves by simp
qed

section \<open>The key-pair handle\<close>

lemma unat_ref_count_inc:
  fixes c :: "64 word"
  shows "unat c + 1 < 2 ^ 64 \<Longrightarrow> unat (c + 1) = unat c + 1"
  by (simp add: unat_word_ariths)

lemma unat_ref_count_dec:
  fixes c :: "64 word"
  shows "0 < unat c \<Longrightarrow> unat (c - 1) = unat c - 1"
  by (simp add: unat_minus_one unat_gt_0)

text \<open>A release that is not the last one returns, whatever the vtable holds.\<close>

lemma release_not_last:
  "ref_count (members k) \<noteq> 1 \<Longrightarrow>
     aws_ecc_key_pair_release k =
       Returned (Some (k\<lparr>members := (members k)\<lparr>ref_count := ref_count (members k) - 1\<rparr>\<rparr>))"
  by (simp add: aws_ecc_key_pair_release_def Let_def)

lemma release_last:
  "ref_count (members k) = 1 \<Longrightarrow>
     aws_ecc_key_pair_release k =
       (case destroy (vtable k) of
          None \<Rightarrow> Aborted
        | Some d \<Rightarrow> Returned (Some (k\<lparr>members := d ((members k)\<lparr>ref_count := 0\<rparr>)\<rparr>)))"
  by (simp add: aws_ecc_key_pair_release_def s_aws_ecc_key_pair_destroy_def Let_def
      split: option.split)

text \<open>
  Paired calls, made while \<open>n\<close> references beyond the first are outstanding, bring the
  count back to 1 and never reach the destroy operation, as long as the count cannot
  wrap around.
\<close>

lemma handle_calls_paired:
  "paired n cs \<Longrightarrow> unat (ref_count (members k)) = Suc n \<Longrightarrow> n + length cs < 2 ^ 64 - 1 \<Longrightarrow>
     handle_calls cs k = Returned (Some (k\<lparr>members := (members k)\<lparr>ref_count := 1\<rparr>\<rparr>))"
proof (induction cs arbitrary: n k)
  case Nil
  then have "ref_count (members k) = 1"
    by (simp add: word_unat_eq_iff)
  then have "k\<lparr>members := (members k)\<lparr>ref_count := 1\<rparr>\<rparr> = k"
    by simp
  then show ?case by simp
next
  case (Cons c cs)
  show ?case
  proof (cases c)
    case Acquire
    let ?k = "aws_ecc_key_pair_acquire k"
    have "unat (ref_count (members k)) + 1 < 2 ^ 64"
      using Cons.prems(2,3) by simp
    then have cnt: "unat (ref_count (members ?k)) = Suc (Suc n)"
      using Cons.prems(2) by (simp add: aws_ecc_key_pair_acquire_def unat_ref_count_inc)
    have "handle_calls cs ?k =
        Returned (Some (?k\<lparr>members := (members ?k)\<lparr>ref_count := 1\<rparr>\<rparr>))"
      using Cons.prems by (intro Cons.IH [of "Suc n"] cnt) (simp_all add: Acquire)
    then show ?thesis
      by (simp add: Acquire aws_ecc_key_pair_acquire_def)
  next
    case Release
    then have n: "0 < n" and rest: "paired (n - 1) cs"
      using Cons.prems(1) by simp_all
    let ?k = "k\<lparr>members := (members k)\<lparr>ref_count := ref_count (members k) - 1\<rparr>\<rparr>"
    have "ref_count (members k) \<noteq> 1"
      using Cons.prems(2) n by (auto simp: word_unat_eq_iff)
    then have rel: "aws_ecc_key_pair_release k = Returned (Some ?k)"
      by (rule release_not_last)
    have cnt: "unat (ref_count (members ?k)) = Suc (n - 1)"
      using Cons.prems(2) n by (simp add: unat_ref_count_dec)
    have "handle_calls cs ?k =
        Returned (Some (?k\<lparr>members := (members ?k)\<lparr>ref_count := 1\<rparr>\<rparr>))"
      using Cons.prems n by (intro Cons.IH [of "n - 1"] rest cnt) simp_all
    then show ?thesis
      by (simp add: Release rel)
  qed
qed

lemma handle_calls_append:
  "handle_calls (cs @ cs') k =
     (case handle_calls cs k of
        Returned (Some k') \<Rightarrow> handle_calls cs' k'
      | r \<Rightarrow> r)"
  by (induction cs k rule: handle_calls.induct)
    (simp_all split: outcome.split option.split)

text \<open>
  Claim C8. A release subtracts one from the reference count. It goes on to the backend's
  destroy operation exactly when the count it found was 1: then the operation the
  vtable binds is applied once (and a vtable that binds none is fatal); when the count
  was anything else the handle is returned with the smaller count and nothing else
  changed. So from a count of 1, paired calls of acquire and release, in any order in
  which no release comes before its acquire and short enough for the count not to wrap
  around, return the handle as it was, with no destroy; one more release then
  applies destroy once.
\<close>

theorem release_destroys_at_last_reference:
  "aws_ecc_key_pair_release k =
     (if ref_count (members k) = 1
      then (case destroy (vtable k) of
              None \<Rightarrow> Aborted
            | Some d \<Rightarrow> Returned (Some (k\<lparr>members := d ((members k)\<lparr>ref_count := 0\<rparr>)\<rparr>)))
      else Returned
             (Some (k\<lparr>members := (members k)\<lparr>ref_count := ref_count (members k) - 1\<rparr>\<rparr>))) \<and>
   (ref_count (members k) = 1 \<and> paired 0 cs \<and> length cs < 2 ^ 64 - 1 \<longrightarrow>
      handle_calls cs k = Returned (Some k) \<and>
      handle_calls (cs @ [Release]) k =
        (case destroy (vtable k) of
           None \<Rightarrow> Aborted
         | Some d \<Rightarrow> Returned (Some (k\<lparr>members := d ((members k)\<lparr>ref_count := 0\<rparr>)\<rparr>))))"
proof (intro conjI impI)
  show "aws_ecc_key_pair_release k =
     (if ref_count (members k) = 1
      then (case destroy (vtable k) of
              None \<Rightarrow> Aborted
            | Some d \<Rightarrow> Returned (Some (k\<lparr>members := d ((members k)\<lparr>ref_count := 0\<rparr>)\<rparr>)))
      else Returned
             (Some (k\<lparr>members := (members k)\<lparr>ref_count := ref_count (members k) - 1\<rparr>\<rparr>)))"
    by (simp add: release_last release_not_last)
  assume a: "ref_count (members k) = 1 \<and> paired 0 cs \<and> length cs < 2 ^ 64 - 1"
  then have "handle_calls cs k =
      Returned (Some (k\<lparr>members := (members k)\<lparr>ref_count := 1\<rparr>\<rparr>))"
    by (intro handle_calls_paired [of 0]) simp_all
  moreover have "k\<lparr>members := (members k)\<lparr>ref_count := 1\<rparr>\<rparr> = k"
    using a by simp
  ultimately show calls: "handle_calls cs k = Returned (Some k)"
    by simp
  show "handle_calls (cs @ [Release]) k =
      (case destroy (vtable k) of
         None \<Rightarrow> Aborted
       | Some d \<Rightarrow> Returned (Some (k\<lparr>members := d ((members k)\<lparr>ref_count := 0\<rparr>)\<rparr>)))"
    using a by (simp add: handle_calls_append calls release_last split: option.split)
qed

text \<open>
  The theorem at the mock key pair, whose destroy operation counts its calls: after
  three nested pairs of calls the counter is 0, after one more release it is 1.
\<close>

theorem release_destroys_at_last_reference_witness:
  "ref_count (members mock_key_pair) = 1 \<and>
   paired 0 [Acquire, Acquire, Release, Acquire, Release, Release] \<and>
   aws_ecc_key_pair_release (aws_ecc_key_pair_acquire mock_key_pair) =
     Returned (Some mock_key_pair) \<and>
   handle_calls [Acquire, Acquire, Release, Acquire, Release, Release] mock_key_pair =
     Returned (Some mock_key_pair) \<and>
   impl (members mock_key_pair) = 0 \<and>
   handle_calls ([Acquire, Acquire, Release, Acquire, Release, Release] @ [Release])
     mock_key_pair =
     Returned (Some (mock_key_pair\<lparr>members := mock_fields\<lparr>ref_count := 0, impl := 1\<rparr>\<rparr>))"
proof -
  have d: "destroy (vtable mock_key_pair) = Some mock_destroy"
    by (simp add: mock_key_pair_def mock_vtable_def)
  have m: "members mock_key_pair = mock_fields" "ref_count mock_fields = 1"
    "impl mock_fields = 0"
    by (simp_all add: mock_key_pair_def mock_fields_def)
  have acq: "aws_ecc_key_pair_acquire mock_key_pair =
      mock_key_pair\<lparr>members := mock_fields\<lparr>ref_count := 2\<rparr>\<rparr>"
    by (simp add: aws_ecc_key_pair_acquire_def m)
  show ?thesis
    using release_destroys_at_last_reference [of mock_key_pair
        "[Acquire, Acquire, Release, Acquire, Release, Release]"]
      release_destroys_at_last_reference [of "aws_ecc_key_pair_acquire mock_key_pair" "[]"]
    by (simp add: d m acq mock_destroy_def)
qed

text \<open>
  Claim C9. Each of the five dispatching operations is fatal when the vtable does not
  bind the backend operation it dispatches (for destroy: the static destroy helper on a
  key pair, and with it the release of the last reference), and returns what the bound
  backend operation returns when the vtable binds it.
\<close>

theorem missing_operation_is_fatal:
  "(destroy (vtable k) = None \<longrightarrow>
      s_aws_ecc_key_pair_destroy (Some k) = Aborted \<and>
      (ref_count (members k) = 1 \<longrightarrow> aws_ecc_key_pair_release k = Aborted)) \<and>
   (derive_pub_key (vtable k) = None \<longrightarrow> aws_ecc_key_pair_derive_public_key k = Aborted) \<and>
   (sign_message (vtable k) = None \<longrightarrow>
      aws_ecc_key_pair_sign_message k message signature = Aborted) \<and>
   (verify_signature (vtable k) = None \<longrightarrow>
      aws_ecc_key_pair_verify_signature k message signature = Aborted) \<and>
   (signature_length (vtable k) = None \<longrightarrow> aws_ecc_key_pair_signature_length k = Aborted) \<and>
   (destroy (vtable k) = Some d \<longrightarrow>
      s_aws_ecc_key_pair_destroy (Some k) = Returned (Some (k\<lparr>members := d (members k)\<rparr>))) \<and>
   (derive_pub_key (vtable k) = Some f \<longrightarrow>
      aws_ecc_key_pair_derive_public_key k =
        Returned (fst (f (members k)), k\<lparr>members := snd (f (members k))\<rparr>)) \<and>
   (sign_message (vtable k) = Some g \<longrightarrow>
      aws_ecc_key_pair_sign_message k message signature =
        Returned (g (members k) message signature)) \<and>
   (verify_signature (vtable k) = Some h \<longrightarrow>
      aws_ecc_key_pair_verify_signature k message signature =
        Returned (h (members k) message signature)) \<and>
   (signature_length (vtable k) = Some l \<longrightarrow>
      aws_ecc_key_pair_signature_length k = Returned (l (members k)))"
proof -
  have destroy_missing: "s_aws_ecc_key_pair_destroy (Some k') = Aborted"
    if "destroy (vtable k') = None" for k' :: "'a aws_ecc_key_pair"
    using that by (simp add: s_aws_ecc_key_pair_destroy_def)
  have "aws_ecc_key_pair_release k = Aborted"
    if "destroy (vtable k) = None" "ref_count (members k) = 1"
    using that by (simp add: release_last)
  moreover have "s_aws_ecc_key_pair_destroy (Some k) =
      Returned (Some (k\<lparr>members := d (members k)\<rparr>))"
    if "destroy (vtable k) = Some d"
    using that by (simp add: s_aws_ecc_key_pair_destroy_def)
  ultimately show ?thesis
    using destroy_missing [of k]
    by (simp add: aws_ecc_key_pair_derive_public_key_def aws_ecc_key_pair_sign_message_def
        aws_ecc_key_pair_verify_signature_def aws_ecc_key_pair_signature_length_def)
qed

text \<open>
  The theorem at the key pair whose vtable binds nothing, where all five calls are
  fatal, and at the mock key pair, where each call returns what the mock backend
  computes.
\<close>

theorem missing_operation_is_fatal_witness:
  "aws_ecc_key_pair_release incomplete_key_pair = Aborted \<and>
   aws_ecc_key_pair_derive_public_key incomplete_key_pair = Aborted \<and>
   aws_ecc_key_pair_sign_message incomplete_key_pair [1, 2] [] = Aborted \<and>
   aws_ecc_key_pair_verify_signature incomplete_key_pair [1, 2] [3] = Aborted \<and>
   aws_ecc_key_pair_signature_length incomplete_key_pair = Aborted \<and>
   s_aws_ecc_key_pair_destroy (Some mock_key_pair) =
     Returned (Some (mock_key_pair\<lparr>members := mock_fields\<lparr>impl := 1\<rparr>\<rparr>)) \<and>
   aws_ecc_key_pair_derive_public_key mock_key_pair =
     Returned (0, mock_key_pair\<lparr>members := mock_fields\<lparr>pub_x := [7], pub_y := [7]\<rparr>\<rparr>) \<and>
   aws_ecc_key_pair_sign_message mock_key_pair [1, 2] [] = Returned (0, [7, 1, 2]) \<and>
   aws_ecc_key_pair_verify_signature mock_key_pair [1, 2] [3] = Returned (- 1) \<and>
   aws_ecc_key_pair_signature_length mock_key_pair = Returned 72"
proof -
  have none: "destroy (vtable incomplete_key_pair) = None"
    "derive_pub_key (vtable incomplete_key_pair) = None"
    "sign_message (vtable incomplete_key_pair) = None"
    "verify_signature (vtable incomplete_key_pair) = None"
    "signature_length (vtable incomplete_key_pair) = None"
    "ref_count (members incomplete_key_pair) = 1"
    by (simp_all add: incomplete_key_pair_def incomplete_vtable_def mock_fields_def)
  have some: "destroy (vtable mock_key_pair) = Some mock_destroy"
    "derive_pub_key (vtable mock_key_pair) = Some mock_derive_pub_key"
    "sign_message (vtable mock_key_pair) = Some mock_sign_message"
    "verify_signature (vtable mock_key_pair) = Some mock_verify_signature"
    "signature_length (vtable mock_key_pair) = Some mock_signature_length"
    by (simp_all add: mock_key_pair_def mock_vtable_def)
  have m: "members mock_key_pair = mock_fields"
    by (simp add: mock_key_pair_def)
  show ?thesis
    using missing_operation_is_fatal [of incomplete_key_pair "[1, 2]" "[]"]
      missing_operation_is_fatal [of incomplete_key_pair "[1, 2]" "[3]"]
      missing_operation_is_fatal [of mock_key_pair "[1, 2]" "[]" mock_destroy
        mock_derive_pub_key mock_sign_message mock_verify_signature mock_signature_length]
      missing_operation_is_fatal [of mock_key_pair "[1, 2]" "[3]" mock_destroy
        mock_derive_pub_key mock_sign_message mock_verify_signature mock_signature_length]
    by (simp add: none some m mock_destroy_def mock_derive_pub_key_def
        mock_sign_message_def mock_verify_signature_def mock_signature_length_def
        mock_fields_def)
qed

end
